theory Spec2Isabelle
  imports Main
begin

text \<open>
  The lead acquisition pipeline of the repository, as functions of HOL: country
  detection and query synthesis (\<open>AIService\<close>), the search backends, lead extraction and
  the hunt (\<open>SearchService\<close>), the duplicate filter (\<open>DuplicateChecker\<close>), and the three
  places where a requested count is clamped. A Python function becomes a function of the
  same name (a leading underscore is dropped); a \<open>for\<close> loop becomes a recursion or a
  left fold over the list it walks, with the variables it assigns as its state; a
  \<open>try\<close> block becomes a value that is an exception or a result. What the functions
  print is left out. The network is a parameter of the model, and so are the three facts
  of the Python runtime named below.
\<close>

section \<open>Python strings\<close>

text \<open>
  A Python \<open>str\<close> is a sequence of Unicode code points: \<open>len\<close>, slicing,
  \<open>startswith\<close> and \<open>in\<close> all count code points. The Arabic literals of the
  sources are therefore written as lists of code points; \<open>A\<close> embeds an ASCII literal.
\<close>

type_synonym ustr = "nat list"

definition A :: "string \<Rightarrow> ustr" where
  "A s = map of_char s"

text \<open>
  \<open>str.isspace\<close> for one code point: the characters \<open>str.strip()\<close> removes and the
  regular-expression class \<open>\s\<close> matches on \<open>str\<close> patterns.
\<close>

definition isspace :: "nat \<Rightarrow> bool" where
  "isspace c =
     ((9 \<le> c \<and> c \<le> 13) \<or> (28 \<le> c \<and> c \<le> 32) \<or> c = 133 \<or> c = 160 \<or> c = 5760 \<or>
      (8192 \<le> c \<and> c \<le> 8202) \<or> c = 8232 \<or> c = 8233 \<or> c = 8239 \<or> c = 8287 \<or> c = 12288)"

definition lstrip :: "ustr \<Rightarrow> ustr" where
  "lstrip s = dropWhile isspace s"

definition rstrip :: "ustr \<Rightarrow> ustr" where
  "rstrip s = rev (dropWhile isspace (rev s))"

definition strip :: "ustr \<Rightarrow> ustr" where
  "strip s = rstrip (lstrip s)"

text \<open>\<open>s.startswith(p)\<close>.\<close>

fun startswith :: "ustr \<Rightarrow> ustr \<Rightarrow> bool" where
  "startswith s [] = True"
| "startswith [] (p # ps) = False"
| "startswith (c # cs) (p # ps) = (c = p \<and> startswith cs ps)"

text \<open>\<open>sub in s\<close> on strings: \<open>sub\<close> occurs in \<open>s\<close> as a contiguous run.\<close>

fun contains :: "ustr \<Rightarrow> ustr \<Rightarrow> bool" where
  "contains [] sub = (sub = [])"
| "contains (c # cs) sub = (startswith (c # cs) sub \<or> contains cs sub)"

text \<open>
  The slice \<open>xs[:n]\<close> for a Python integer \<open>n\<close>: the first \<open>n\<close> elements, and for a
  negative \<open>n\<close> all but the last \<open>-n\<close>.
\<close>

definition slice_to :: "int \<Rightarrow> 'a list \<Rightarrow> 'a list" where
  "slice_to n xs = (if 0 \<le> n then take (nat n) xs else take (length xs - nat (- n)) xs)"

section \<open>AIService._extract_service\<close>

text \<open>
  The list \<open>prefixes\<close> of the source, in its order: six Arabic self-identification
  openers ("I am " in two spellings, "I work as " in two spellings, "I have " in two
  wordings), each written here as its code points. The fourth has no trailing space; the
  others end in one (U+0020).
\<close>

definition prefixes :: "ustr list" where
  "prefixes =
     [[1571, 1606, 1575, 32],
      [1575, 1606, 1575, 32],
      [1571, 1593, 1605, 1604, 32, 1603, 1600, 32],
      [1575, 1593, 1605, 1604, 32, 1603],
      [1593, 1606, 1583, 1610, 32],
      [1604, 1583, 1610, 32]]"

text \<open>
  The loop \<^verbatim>\<open>for prefix in prefixes: if query.startswith(prefix): result = query[len(prefix):]; break\<close>
  with \<open>result\<close> initialised to \<open>query\<close>.
\<close>

fun strip_prefix_loop :: "ustr list \<Rightarrow> ustr \<Rightarrow> ustr" where
  "strip_prefix_loop [] query = query"
| "strip_prefix_loop (p # ps) query =
     (if startswith query p then drop (length p) query else strip_prefix_loop ps query)"

definition extract_service :: "ustr \<Rightarrow> ustr" where
  "extract_service query = strip (strip_prefix_loop prefixes query)"

section \<open>The Python runtime\<close>

text \<open>
  Three facts of the Python runtime are not code of the repository and are taken as
  parameters, so that every theorem holds for whatever they are:
  \<^item> \<open>lower\<close> is \<open>str.lower\<close> (Unicode case mapping, which is not character-wise);
  \<^item> \<open>decimal\<close> gives the value of a Unicode decimal digit (category Nd) outside ASCII,
    and \<open>None\<close> for every other code point; the ASCII digits are fixed below;
  \<^item> \<open>int_max_str_digits\<close> is the interpreter's limit on the length of a string that
    \<open>int()\<close> converts (4300 by default, 0 for no limit).
\<close>

record pylib =
  lower :: "ustr \<Rightarrow> ustr"
  decimal :: "nat \<Rightarrow> nat option"
  int_max_str_digits :: nat

definition decimal_value :: "pylib \<Rightarrow> nat \<Rightarrow> nat option" where
  "decimal_value L c = (if 48 \<le> c \<and> c \<le> 57 then Some (c - 48) else decimal L c)"

definition isdecimal :: "pylib \<Rightarrow> nat \<Rightarrow> bool" where
  "isdecimal L c = (decimal_value L c \<noteq> None)"

section \<open>Regular expressions\<close>

text \<open>
  The fragment of Python's \<open>re\<close> that the patterns of the repository use: character
  classes, sequences, the greedy \<open>?\<close> on a group or a character, and the greedy
  repetitions \<open>{n}\<close> and \<open>*\<close> of a character class (\<open>c+\<close> is \<open>c\<close> then \<open>c*\<close>, and
  \<open>c{n,}\<close> is \<open>c{n}\<close> then \<open>c*\<close>). On \<open>str\<close> patterns \<open>\d\<close> is any Unicode decimal
  digit, \<open>\D\<close> anything else, \<open>\s\<close> any Unicode whitespace, and \<open>.\<close> anything
  but a newline.
\<close>

datatype cls = Chars ustr | Range nat nat | Digit | NonDigit | Space | Dot | Or cls cls

fun cls_mem :: "pylib \<Rightarrow> cls \<Rightarrow> nat \<Rightarrow> bool" where
  "cls_mem L (Chars cs) x = (x \<in> set cs)"
| "cls_mem L (Range lo hi) x = (lo \<le> x \<and> x \<le> hi)"
| "cls_mem L Digit x = isdecimal L x"
| "cls_mem L NonDigit x = (\<not> isdecimal L x)"
| "cls_mem L Space x = isspace x"
| "cls_mem L Dot x = (x \<noteq> 10)"
| "cls_mem L (Or c d) x = (cls_mem L c x \<or> cls_mem L d x)"

datatype rx = Eps | Chr cls | Seq rx rx | Opt rx | Rep nat cls | Star cls

text \<open>
  \<open>ends L r s\<close> lists what is left of \<open>s\<close> after each way \<open>r\<close> can match a prefix of it,
  in the order in which the backtracking matcher tries them: a greedy operator tries
  the longer match first. The head of the list is the match \<open>re\<close> reports at this
  position.
\<close>

fun ends :: "pylib \<Rightarrow> rx \<Rightarrow> ustr \<Rightarrow> ustr list" where
  "ends L Eps s = [s]"
| "ends L (Chr c) s = (case s of [] \<Rightarrow> [] | x # xs \<Rightarrow> if cls_mem L c x then [xs] else [])"
| "ends L (Seq a b) s = concat (map (ends L b) (ends L a s))"
| "ends L (Opt a) s = ends L a s @ [s]"
| "ends L (Rep n c) s =
     (if n \<le> length (takeWhile (cls_mem L c) s) then [drop n s] else [])"
| "ends L (Star c) s =
     map (\<lambda>k. drop k s) (rev [0..<Suc (length (takeWhile (cls_mem L c) s))])"

text \<open>
  \<open>re.findall(r, s)\<close> for a pattern without capturing groups: scan from the left; where
  the pattern matches, report the matched text and go on after it; where it does not,
  move one character on. \<open>skip\<close> counts the characters of the last match still to be
  passed over. (A pattern that can match the empty string is given one empty match per
  position; none of the patterns below can.)
\<close>

fun findall_from :: "pylib \<Rightarrow> rx \<Rightarrow> nat \<Rightarrow> ustr \<Rightarrow> ustr list" where
  "findall_from L r skip [] = (if skip = 0 \<and> ends L r [] \<noteq> [] then [[]] else [])"
| "findall_from L r skip (c # cs) =
     (if 0 < skip then findall_from L r (skip - 1) cs
      else case ends L r (c # cs) of
             [] \<Rightarrow> findall_from L r 0 cs
           | rest # _ \<Rightarrow>
               (let k = length (c # cs) - length rest
                in take k (c # cs) # findall_from L r (k - 1) cs))"

definition findall :: "pylib \<Rightarrow> rx \<Rightarrow> ustr \<Rightarrow> ustr list" where
  "findall L r s = findall_from L r 0 s"

text \<open>\<open>re.sub(r, '', s)\<close>: the same scan, keeping what no match covers.\<close>

fun sub_from :: "pylib \<Rightarrow> rx \<Rightarrow> nat \<Rightarrow> ustr \<Rightarrow> ustr" where
  "sub_from L r skip [] = []"
| "sub_from L r skip (c # cs) =
     (if 0 < skip then sub_from L r (skip - 1) cs
      else case ends L r (c # cs) of
             [] \<Rightarrow> c # sub_from L r 0 cs
           | rest # _ \<Rightarrow>
               (let k = length (c # cs) - length rest
                in if k = 0 then c # sub_from L r 0 cs else sub_from L r (k - 1) cs))"

definition sub_empty :: "pylib \<Rightarrow> rx \<Rightarrow> ustr \<Rightarrow> ustr" where
  "sub_empty L r s = sub_from L r 0 s"

definition seq :: "rx list \<Rightarrow> rx" where
  "seq rs = foldr Seq rs Eps"

definition lit :: "ustr \<Rightarrow> rx" where
  "lit s = seq (map (\<lambda>c. Chr (Chars [c])) s)"

section \<open>AIService: the tables\<close>

text \<open>
  The Arabic phrases of the query templates, as code points. In the order below they
  read: "need", "want", "who knows", "point me to", "looking for", "I wish someone
  would recommend me", "I wish someone", "someone recommend me", "someone knows",
  "good", "urgently", "anyone tried", "your experience with", "job", "wanted",
  "company", "potential customer", and the names of Egypt, Saudi Arabia, the Emirates
  and Kuwait.
\<close>

definition ar_need :: ustr where
  "ar_need = [1605, 1581, 1578, 1575, 1580]"

definition ar_want :: ustr where
  "ar_want = [1593, 1575, 1610, 1586]"

definition ar_who_knows :: ustr where
  "ar_who_knows = [1605, 1610, 1606, 32, 1610, 1593, 1585, 1601]"

definition ar_point_me_to :: ustr where
  "ar_point_me_to = [1583, 1604, 1608, 1606, 1610, 32, 1593, 1604, 1609]"

definition ar_looking_for :: ustr where
  "ar_looking_for = [1575, 1576, 1581, 1579, 32, 1593, 1606]"

definition ar_wish_someone_recommends :: ustr where
  "ar_wish_someone_recommends =
     [1610, 1575, 32, 1585, 1610, 1578, 32, 1581, 1583, 32, 1610, 1585, 1588, 1581, 1604, 1610]"

definition ar_wish_someone :: ustr where
  "ar_wish_someone = [1610, 1575, 32, 1585, 1610, 1578, 32, 1581, 1583]"

definition ar_someone_recommends :: ustr where
  "ar_someone_recommends = [1581, 1583, 32, 1610, 1585, 1588, 1581, 1604, 1610]"

definition ar_someone_knows :: ustr where
  "ar_someone_knows = [1581, 1583, 32, 1610, 1593, 1585, 1601]"

definition ar_good :: ustr where
  "ar_good = [1603, 1608, 1610, 1587]"

definition ar_urgently :: ustr where
  "ar_urgently = [1590, 1585, 1608, 1585, 1610]"

definition ar_anyone_tried :: ustr where
  "ar_anyone_tried = [1581, 1583, 32, 1580, 1585, 1576]"

definition ar_your_experience_with :: ustr where
  "ar_your_experience_with = [1578, 1580, 1585, 1576, 1578, 1603, 1605, 32, 1605, 1593]"

definition ar_job :: ustr where
  "ar_job = [1608, 1592, 1610, 1601, 1577]"

definition ar_wanted :: ustr where
  "ar_wanted = [1605, 1591, 1604, 1608, 1576]"

definition ar_company :: ustr where
  "ar_company = [1588, 1585, 1603, 1577]"

definition ar_potential_customer :: ustr where
  "ar_potential_customer = [1593, 1605, 1610, 1604, 32, 1605, 1581, 1578, 1605, 1604]"

definition ar_egypt :: ustr where
  "ar_egypt = [1605, 1589, 1585]"

definition ar_saudi :: ustr where
  "ar_saudi = [1575, 1604, 1587, 1593, 1608, 1583, 1610, 1577]"

definition ar_uae :: ustr where
  "ar_uae = [1575, 1604, 1573, 1605, 1575, 1585, 1575, 1578]"

definition ar_kuwait :: ustr where
  "ar_kuwait = [1575, 1604, 1603, 1608, 1610, 1578]"

text \<open>The double quote, and \<open>d.get(key, default)\<close> on a dictionary kept in insertion order.\<close>

definition dq :: ustr where
  "dq = [34]"

definition get_or :: "'a option \<Rightarrow> 'a \<Rightarrow> 'a" where
  "get_or v d = (case v of None \<Rightarrow> d | Some x \<Rightarrow> x)"

definition dict_get :: "(ustr \<times> 'a) list \<Rightarrow> ustr \<Rightarrow> 'a \<Rightarrow> 'a" where
  "dict_get d k dflt = get_or (map_of d k) dflt"

text \<open>
  \<open>COUNTRY_CONFIGS\<close>, with the two entries of each configuration that the pipeline
  reads: the phone-pattern disjunction for queries and the list of cities. (The
  entries \<open>name\<close>, \<open>sites\<close> and \<open>gl\<close> are read by no function modelled here.)
\<close>

record country_config =
  cfg_phone_patterns :: ustr
  cities :: "ustr list"

definition egypt_config :: country_config where
  "egypt_config =
    \<lparr>cfg_phone_patterns =
       concat [A ''('', dq, A ''010'', dq, A '' OR '', dq, A ''011'', dq, A '' OR '', dq,
               A ''012'', dq, A '' OR '', dq, A ''015'', dq, A '')''],
     cities =
      [[1575, 1604, 1602, 1575, 1607, 1585, 1577],
       [1575, 1604, 1573, 1587, 1603, 1606, 1583, 1585, 1610, 1577],
       [1575, 1604, 1580, 1610, 1586, 1577],
       [1575, 1604, 1605, 1606, 1589, 1608, 1585, 1577],
       [1591, 1606, 1591, 1575],
       [1571, 1587, 1608, 1575, 1606],
       [1575, 1604, 1571, 1602, 1589, 1585],
       [1588, 1585, 1605, 32, 1575, 1604, 1588, 1610, 1582]]\<rparr>"

definition saudi_config :: country_config where
  "saudi_config =
    \<lparr>cfg_phone_patterns =
       concat [A ''('', dq, A ''05'', dq, A '' OR '', dq, A ''9665'', dq, A '' OR '', dq,
               A ''966'', dq, A '')''],
     cities =
      [[1575, 1604, 1585, 1610, 1575, 1590],
       [1580, 1583, 1577],
       [1605, 1603, 1577],
       [1575, 1604, 1605, 1583, 1610, 1606, 1577],
       [1575, 1604, 1583, 1605, 1575, 1605],
       [1575, 1604, 1582, 1576, 1585],
       [1575, 1604, 1591, 1575, 1574, 1601],
       [1578, 1576, 1608, 1603],
       [1571, 1576, 1607, 1575]]\<rparr>"

definition uae_config :: country_config where
  "uae_config =
    \<lparr>cfg_phone_patterns =
       concat [A ''('', dq, A ''050'', dq, A '' OR '', dq, A ''055'', dq, A '' OR '', dq,
               A ''056'', dq, A '' OR '', dq, A ''9714'', dq, A '')''],
     cities =
      [[1583, 1576, 1610],
       [1571, 1576, 1608, 1592, 1576, 1610],
       [1575, 1604, 1588, 1575, 1585, 1602, 1577],
       [1593, 1580, 1605, 1575, 1606],
       [1575, 1604, 1593, 1610, 1606],
       [1585, 1571, 1587, 32, 1575, 1604, 1582, 1610, 1605, 1577]]\<rparr>"

definition kuwait_config :: country_config where
  "kuwait_config =
    \<lparr>cfg_phone_patterns =
       concat [A ''('', dq, A ''965'', dq, A '' OR '', dq, A ''9'', dq, A '' OR '', dq,
               A ''5'', dq, A '' OR '', dq, A ''6'', dq, A '')''],
     cities =
      [[1575, 1604, 1603, 1608, 1610, 1578],
       [1581, 1608, 1604, 1610],
       [1575, 1604, 1601, 1585, 1608, 1575, 1606, 1610, 1577],
       [1575, 1604, 1571, 1581, 1605, 1583, 1610],
       [1575, 1604, 1580, 1607, 1585, 1575, 1569]]\<rparr>"

definition COUNTRY_CONFIGS :: "(ustr \<times> country_config) list" where
  "COUNTRY_CONFIGS =
    [(A ''egypt'', egypt_config), (A ''saudi'', saudi_config),
     (A ''uae'', uae_config), (A ''kuwait'', kuwait_config)]"

text \<open>
  \<open>HUNTING_STRATEGIES\<close>: each strategy's \<open>sites\<close> expression (the entries \<open>name\<close> and
  \<open>keywords\<close> are read by no function of the pipeline).
\<close>

definition social_media_sites :: ustr where
  "social_media_sites =
     A ''(site:facebook.com OR site:instagram.com OR site:twitter.com OR site:linkedin.com/in)''"

definition HUNTING_STRATEGIES :: "(ustr \<times> ustr) list" where
  "HUNTING_STRATEGIES =
    [(A ''social_media'', social_media_sites),
     (A ''local_platforms'',
      A ''(site:olx.com.eg OR site:opensooq.com OR site:dubizzle.com)''),
     (A ''events'', A ''(site:facebook.com OR site:instagram.com)''),
     (A ''contact_pages'',
      concat [A ''('', dq, A ''contact us'', dq, A '' OR '', dq,
              [1575, 1578, 1589, 1604, 32, 1576, 1606, 1575], dq, A '' OR '', dq,
              [1578, 1608, 1575, 1589, 1604, 32, 1605, 1593, 1606, 1575], dq, A '')'']),
     (A ''competitor_monitor'', A ''(site:facebook.com OR site:instagram.com)'')]"

section \<open>AIService: country detection and query synthesis\<close>

text \<open>
  \<open>detect_country\<close>. The two nested \<open>for\<close> loops return from inside at the first
  city \<open>c\<close> with \<open>c in city or city in c\<close>; the keyword tests that follow read
  \<open>city_lower = city.lower().strip()\<close>.
\<close>

fun city_loop :: "ustr \<Rightarrow> ustr list \<Rightarrow> bool" where
  "city_loop city [] = False"
| "city_loop city (c # cs) =
     (if contains city c \<or> contains c city then True else city_loop city cs)"

fun country_loop :: "ustr \<Rightarrow> (ustr \<times> country_config) list \<Rightarrow> ustr option" where
  "country_loop city [] = None"
| "country_loop city ((country_code, config) # rest) =
     (if city_loop city (cities config) then Some country_code else country_loop city rest)"

definition saudi_keywords :: "ustr list" where
  "saudi_keywords =
     [[1575, 1604, 1585, 1610, 1575, 1590], [1580, 1583, 1577], [1605, 1603, 1577], ar_saudi]"

definition uae_keywords :: "ustr list" where
  "uae_keywords =
     [[1583, 1576, 1610], [1571, 1576, 1608, 1592, 1576, 1610],
      [1575, 1604, 1588, 1575, 1585, 1602, 1577], ar_uae]"

definition kuwait_keywords :: "ustr list" where
  "kuwait_keywords = [ar_kuwait, [1581, 1608, 1604, 1610]]"

definition detect_country :: "pylib \<Rightarrow> ustr \<Rightarrow> ustr" where
  "detect_country L city =
     (let city_lower = strip (lower L city) in
      case country_loop city COUNTRY_CONFIGS of
        Some country_code \<Rightarrow> country_code
      | None \<Rightarrow>
          if list_ex (\<lambda>x. contains city_lower x) saudi_keywords then A ''saudi''
          else if list_ex (\<lambda>x. contains city_lower x) uae_keywords then A ''uae''
          else if list_ex (\<lambda>x. contains city_lower x) kuwait_keywords then A ''kuwait''
          else A ''egypt'')"

text \<open>
  An \<open>Optional[str]\<close> argument is \<open>None\<close> or a string; \<open>if not country\<close> holds for
  \<open>None\<close> and for the empty string.
\<close>

definition resolve_country :: "pylib \<Rightarrow> ustr option \<Rightarrow> ustr \<Rightarrow> ustr" where
  "resolve_country L country_arg city =
     (case country_arg of
        None \<Rightarrow> detect_country L city
      | Some c \<Rightarrow> if c = [] then detect_country L city else c)"

text \<open>\<open>sep.join(xs)\<close>.\<close>

fun join :: "ustr \<Rightarrow> ustr list \<Rightarrow> ustr" where
  "join sep [] = []"
| "join sep [x] = x"
| "join sep (x # y # ys) = x @ sep @ join sep (y # ys)"

text \<open>
  \<open>generate_golden_query\<close>: only the first four of the seven customer phrases enter the
  query. The function builds strings and prints; for string arguments nothing in it
  raises.
\<close>

definition generate_golden_query :: "pylib \<Rightarrow> ustr \<Rightarrow> ustr \<Rightarrow> ustr \<Rightarrow> ustr option \<Rightarrow> ustr" where
  "generate_golden_query L query city strategy country_arg =
     (let ctry = resolve_country L country_arg city;
          country_config = dict_get COUNTRY_CONFIGS ctry egypt_config;
          sites = dict_get HUNTING_STRATEGIES strategy social_media_sites;
          service = extract_service query;
          customer_keywords =
            [concat [ar_need, A '' '', service],
             concat [ar_want, A '' '', service],
             concat [ar_who_knows, A '' '', service],
             concat [ar_point_me_to, A '' '', service],
             concat [ar_looking_for, A '' '', service],
             concat [ar_wish_someone_recommends, A '' '', service],
             concat [ar_someone_knows, A '' '', service, A '' '', ar_good]];
          customer_keywords_str =
            join (A '' OR '') (map (\<lambda>kw. dq @ kw @ dq) (take 4 customer_keywords))
      in concat [sites, A '' ('', customer_keywords_str, A '') '', dq, city, dq, A '' '',
                 cfg_phone_patterns country_config, A '' -site:youtube.com -'', dq, ar_job, dq,
                 A '' -'', dq, ar_wanted, dq, A '' -'', dq, ar_company, dq])"

definition generate_fallback_queries :: "pylib \<Rightarrow> ustr \<Rightarrow> ustr \<Rightarrow> ustr option \<Rightarrow> ustr list" where
  "generate_fallback_queries L query city country_arg =
     (let ctry = resolve_country L country_arg city;
          country_config = dict_get COUNTRY_CONFIGS ctry egypt_config;
          service = extract_service query
      in [concat [A ''site:facebook.com ('', dq, ar_need, A '' '', service, dq, A '' OR '', dq,
                  ar_want, A '' '', service, dq, A '' OR '', dq, ar_who_knows, A '' '', service,
                  dq, A '') '', dq, city, dq, A '' '', cfg_phone_patterns country_config],
          concat [A ''site:facebook.com ('', dq, ar_point_me_to, A '' '', service, dq, A '' OR '',
                  dq, ar_wish_someone_recommends, A '' '', service, dq, A '') '', dq, city, dq],
          concat [A ''site:instagram.com ('', dq, ar_need, A '' '', service, dq, A '' OR '', dq,
                  ar_looking_for, A '' '', service, dq, A '') '', city, A '' '',
                  cfg_phone_patterns country_config],
          concat [dq, ar_anyone_tried, A '' '', service, dq, A '' OR '', dq,
                  ar_your_experience_with, A '' '', service, dq, A '' '', city, A '' '',
                  cfg_phone_patterns country_config],
          concat [A ''('', dq, ar_need, A '' '', service, A '' '', ar_urgently, dq, A '' OR '', dq,
                  ar_want, A '' '', service, A '' '', ar_good, dq, A '') '', city]])"

section \<open>SearchService: the search backends\<close>

text \<open>
  A call that may raise either raises or returns a value. The network is outside the
  program: \<open>net log req\<close> is what the request \<open>req\<close> meets when the requests \<open>log\<close> have
  been sent before it, namely an exception out of \<open>requests.post\<close> or \<open>requests.get\<close>
  (timeout, connection error) or a response. A response has a status code, and its
  \<open>json()\<close> raises (a body that is not JSON) or returns the decoded body. The state of
  the program's dealings with the network is the log of requests sent.
\<close>

datatype 'a py = Raises | Returns 'a

text \<open>
  Decoded bodies, as far as the backends look at them. The value under \<open>"organic"\<close> or
  \<open>"RelatedTopics"\<close> is an array of items, a string, or something that cannot be sliced
  (an object, a number, a boolean, \<open>null\<close>). An item is an object, a string, an array
  or a scalar. The members \<open>title\<close>, \<open>link\<close>, \<open>snippet\<close>, \<open>Text\<close> and \<open>FirstURL\<close> that the
  backends read from an object are strings when present: that is the providers'
  schema, and the only typing assumed of a body.
\<close>

datatype item = Object "(ustr \<times> ustr) list" | Str_item ustr | Array "item list" | Scalar

datatype member = Items "item list" | Str_member ustr | Other_member

datatype body = Dict "(ustr \<times> member) list" | Not_dict

record http_response =
  status_code :: int
  json :: "body py"

datatype http_request =
    Post_serper ustr ustr ustr ustr int
  | Get_duckduckgo ustr

type_synonym network = "http_request list \<Rightarrow> http_request \<Rightarrow> http_response py"

text \<open>
  A search result is a dictionary with the keys \<open>title\<close>, \<open>link\<close>, \<open>snippet\<close> and
  \<open>source\<close> (the backend's name, here \<open>backend\<close>); \<open>None\<close> is an absent key, which the
  extractor reads through \<open>.get\<close> with a default.
\<close>

record raw_result =
  title :: "ustr option"
  link :: "ustr option"
  snippet :: "ustr option"
  backend :: "ustr option"

text \<open>
  \<open>data.get(key, [])[:max_results]\<close>, as the sequence the \<open>for\<close> loop then walks: a
  string is walked character by character, each a string of length one.
\<close>

fun sliced_items :: "member option \<Rightarrow> int \<Rightarrow> item list py" where
  "sliced_items None n = Returns []"
| "sliced_items (Some (Items xs)) n = Returns (slice_to n xs)"
| "sliced_items (Some (Str_member s)) n = Returns (map (\<lambda>c. Str_item [c]) (slice_to n s))"
| "sliced_items (Some Other_member) n = Raises"

text \<open>The Serper loop: \<open>item.get\<close> exists on objects only.\<close>

fun serper_loop :: "raw_result list \<Rightarrow> item list \<Rightarrow> raw_result list py" where
  "serper_loop results [] = Returns results"
| "serper_loop results (Object m # rest) =
     serper_loop
       (results @
        [\<lparr>title = Some (dict_get m (A ''title'') []),
          link = Some (dict_get m (A ''link'') []),
          snippet = Some (dict_get m (A ''snippet'') []),
          backend = Some (A ''serper'')\<rparr>])
       rest"
| "serper_loop results (other # rest) = Raises"

text \<open>
  The \<open>try\<close> block that \<open>search_serper\<close> and \<open>search_with_country\<close> share (they differ
  in the region code \<open>gl\<close> only): \<open>Raises\<close> is an exception, caught by the \<open>except\<close>
  clause; \<open>Returns (Some results)\<close> is the \<open>return results\<close> inside the block;
  \<open>Returns None\<close> is a status other than 200, after which control leaves the block.
\<close>

definition serper_body :: "body \<Rightarrow> int \<Rightarrow> raw_result list py" where
  "serper_body data max_results =
     (case data of
        Not_dict \<Rightarrow> Raises
      | Dict d \<Rightarrow>
          (case sliced_items (map_of d (A ''organic'')) max_results of
             Raises \<Rightarrow> Raises
           | Returns items \<Rightarrow> serper_loop [] items))"

definition serper_try ::
  "ustr \<Rightarrow> network \<Rightarrow> http_request list \<Rightarrow> ustr \<Rightarrow> ustr \<Rightarrow> int \<Rightarrow>
   raw_result list option py \<times> http_request list" where
  "serper_try api_key net log query gl max_results =
     (let req = Post_serper api_key query gl (A ''ar'') max_results in
      (case net log req of
         Raises \<Rightarrow> Raises
       | Returns response \<Rightarrow>
           if status_code response = 200 then
             (case json response of
                Raises \<Rightarrow> Raises
              | Returns data \<Rightarrow>
                  (case serper_body data max_results of
                     Raises \<Rightarrow> Raises
                   | Returns results \<Rightarrow> Returns (Some results)))
           else Returns None,
       log @ [req]))"

text \<open>\<open>settings.SERPER_API_KEY\<close> is an optional string, tested for truth.\<close>

definition truthy :: "ustr option \<Rightarrow> bool" where
  "truthy v = (case v of None \<Rightarrow> False | Some x \<Rightarrow> x \<noteq> [])"

definition search_serper ::
  "ustr option \<Rightarrow> network \<Rightarrow> http_request list \<Rightarrow> ustr \<Rightarrow> int \<Rightarrow>
   raw_result list \<times> http_request list" where
  "search_serper SERPER_API_KEY net log query max_results =
     (if \<not> truthy SERPER_API_KEY then ([], log)
      else
        (case serper_try (get_or SERPER_API_KEY []) net log query (A ''eg'') max_results of
           (Returns (Some results), log') \<Rightarrow> (results, log')
         | (Returns None, log') \<Rightarrow> ([], log')
         | (Raises, log') \<Rightarrow> ([], log')))"

text \<open>
  The DuckDuckGo loop. \<open>"Text" in item\<close> is a key test on an object, a substring test
  on a string, an element test on an array, and a \<open>TypeError\<close> on a scalar; \<open>item.get\<close>
  then exists on objects only.
\<close>

fun duckduckgo_loop :: "raw_result list \<Rightarrow> item list \<Rightarrow> raw_result list py" where
  "duckduckgo_loop results [] = Returns results"
| "duckduckgo_loop results (Object m # rest) =
     (if map_of m (A ''Text'') \<noteq> None then
        duckduckgo_loop
          (results @
           [\<lparr>title = Some (slice_to 100 (dict_get m (A ''Text'') [])),
             link = Some (dict_get m (A ''FirstURL'') []),
             snippet = Some (dict_get m (A ''Text'') []),
             backend = Some (A ''duckduckgo'')\<rparr>])
          rest
      else duckduckgo_loop results rest)"
| "duckduckgo_loop results (Str_item s # rest) =
     (if contains s (A ''Text'') then Raises else duckduckgo_loop results rest)"
| "duckduckgo_loop results (Array xs # rest) =
     (if Str_item (A ''Text'') \<in> set xs then Raises else duckduckgo_loop results rest)"
| "duckduckgo_loop results (Scalar # rest) = Raises"

definition duckduckgo_body :: "body \<Rightarrow> int \<Rightarrow> raw_result list py" where
  "duckduckgo_body data max_results =
     (case data of
        Not_dict \<Rightarrow> Raises
      | Dict d \<Rightarrow>
          (case sliced_items (map_of d (A ''RelatedTopics'')) max_results of
             Raises \<Rightarrow> Raises
           | Returns items \<Rightarrow> duckduckgo_loop [] items))"

definition duckduckgo_try ::
  "network \<Rightarrow> http_request list \<Rightarrow> ustr \<Rightarrow> int \<Rightarrow>
   raw_result list option py \<times> http_request list" where
  "duckduckgo_try net log query max_results =
     (let req = Get_duckduckgo query in
      (case net log req of
         Raises \<Rightarrow> Raises
       | Returns response \<Rightarrow>
           if status_code response = 200 then
             (case json response of
                Raises \<Rightarrow> Raises
              | Returns data \<Rightarrow>
                  (case duckduckgo_body data max_results of
                     Raises \<Rightarrow> Raises
                   | Returns results \<Rightarrow> Returns (Some results)))
           else Returns None,
       log @ [req]))"

definition search_duckduckgo ::
  "network \<Rightarrow> http_request list \<Rightarrow> ustr \<Rightarrow> int \<Rightarrow> raw_result list \<times> http_request list" where
  "search_duckduckgo net log query max_results =
     (case duckduckgo_try net log query max_results of
        (Returns (Some results), log') \<Rightarrow> (results, log')
      | (Returns None, log') \<Rightarrow> ([], log')
      | (Raises, log') \<Rightarrow> ([], log'))"

text \<open>\<open>search\<close>: Serper first, DuckDuckGo when Serper gave nothing.\<close>

definition search ::
  "ustr option \<Rightarrow> network \<Rightarrow> http_request list \<Rightarrow> ustr \<Rightarrow> int \<Rightarrow>
   raw_result list \<times> http_request list" where
  "search SERPER_API_KEY net log query max_results =
     (case search_serper SERPER_API_KEY net log query max_results of
        (results, log') \<Rightarrow>
          if results = [] then search_duckduckgo net log' query max_results
          else (results, log'))"

text \<open>
  \<open>search_with_country\<close>: a Serper answer with status 200 is returned even when it is
  empty; an exception, another status or a missing key falls through to DuckDuckGo.
\<close>

definition country_gl :: "(ustr \<times> ustr) list" where
  "country_gl =
     [(A ''egypt'', A ''eg''), (A ''saudi'', A ''sa''), (A ''uae'', A ''ae''), (A ''kuwait'', A ''kw'')]"

definition search_with_country ::
  "ustr option \<Rightarrow> network \<Rightarrow> http_request list \<Rightarrow> ustr \<Rightarrow> ustr \<Rightarrow> int \<Rightarrow>
   raw_result list \<times> http_request list" where
  "search_with_country SERPER_API_KEY net log query ctry max_results =
     (let gl = dict_get country_gl ctry (A ''eg'') in
      if truthy SERPER_API_KEY then
        (case serper_try (get_or SERPER_API_KEY []) net log query gl max_results of
           (Returns (Some results), log') \<Rightarrow> (results, log')
         | (Returns None, log') \<Rightarrow> search_duckduckgo net log' query max_results
         | (Raises, log') \<Rightarrow> search_duckduckgo net log' query max_results)
      else search_duckduckgo net log query max_results)"

section \<open>SearchService: extracting leads\<close>

text \<open>
  The patterns of \<open>PHONE_PATTERNS_BY_COUNTRY\<close>, each under the regular expression it
  renders. \<open>[0-9]\<close> is the ten ASCII digits; \<open>\d\<close> is any decimal digit.
\<close>

definition one_of :: "ustr \<Rightarrow> rx" where
  "one_of s = Chr (Chars s)"

definition dash_or_space :: cls where
  "dash_or_space = Or (Chars (A ''-'')) Space"

definition country_prefix :: "ustr \<Rightarrow> rx" where
  "country_prefix code = Opt (seq [Opt (one_of (A ''+'')), lit code])"

text \<open>
  \<open>egypt_patterns\<close>, in order:
  \<^item> \<^verbatim>\<open>(?:\+?2)?01[0125]\d{8}\<close>
  \<^item> \<^verbatim>\<open>01[0125]\d{8}\<close>
  \<^item> \<^verbatim>\<open>01[0125][-\s]?\d{4}[-\s]?\d{4}\<close>
  \<^item> \<^verbatim>\<open>\+20\s?1[0125]\d{8}\<close>
\<close>

definition egypt_patterns :: "rx list" where
  "egypt_patterns =
    [seq [country_prefix (A ''2''), lit (A ''01''), one_of (A ''0125''), Rep 8 Digit],
     seq [lit (A ''01''), one_of (A ''0125''), Rep 8 Digit],
     seq [lit (A ''01''), one_of (A ''0125''), Opt (Chr dash_or_space), Rep 4 Digit,
          Opt (Chr dash_or_space), Rep 4 Digit],
     seq [lit (A ''+20''), Opt (Chr Space), lit (A ''1''), one_of (A ''0125''), Rep 8 Digit]]"

text \<open>
  \<open>saudi_patterns\<close>, in order:
  \<^item> \<^verbatim>\<open>(?:\+?966)?0?5[0-9]\d{7}\<close>
  \<^item> \<^verbatim>\<open>05[0-9]\d{7}\<close>
  \<^item> \<^verbatim>\<open>05[0-9][-\s]?\d{3}[-\s]?\d{4}\<close>
  \<^item> \<^verbatim>\<open>\+966\s?5[0-9]\d{7}\<close>
  \<^item> \<^verbatim>\<open>9665[0-9]\d{7}\<close>
\<close>

definition saudi_patterns :: "rx list" where
  "saudi_patterns =
    [seq [country_prefix (A ''966''), Opt (one_of (A ''0'')), lit (A ''5''), Chr (Range 48 57),
          Rep 7 Digit],
     seq [lit (A ''05''), Chr (Range 48 57), Rep 7 Digit],
     seq [lit (A ''05''), Chr (Range 48 57), Opt (Chr dash_or_space), Rep 3 Digit,
          Opt (Chr dash_or_space), Rep 4 Digit],
     seq [lit (A ''+966''), Opt (Chr Space), lit (A ''5''), Chr (Range 48 57), Rep 7 Digit],
     seq [lit (A ''9665''), Chr (Range 48 57), Rep 7 Digit]]"

text \<open>
  \<open>uae_patterns\<close>, in order:
  \<^item> \<^verbatim>\<open>(?:\+?971)?0?5[0-9]\d{7}\<close>
  \<^item> \<^verbatim>\<open>05[0-9]\d{7}\<close>
  \<^item> \<^verbatim>\<open>\+971\s?5[0-9]\d{7}\<close>
  \<^item> \<^verbatim>\<open>9715[0-9]\d{7}\<close>
\<close>

definition uae_patterns :: "rx list" where
  "uae_patterns =
    [seq [country_prefix (A ''971''), Opt (one_of (A ''0'')), lit (A ''5''), Chr (Range 48 57),
          Rep 7 Digit],
     seq [lit (A ''05''), Chr (Range 48 57), Rep 7 Digit],
     seq [lit (A ''+971''), Opt (Chr Space), lit (A ''5''), Chr (Range 48 57), Rep 7 Digit],
     seq [lit (A ''9715''), Chr (Range 48 57), Rep 7 Digit]]"

text \<open>
  \<open>kuwait_patterns\<close>, in order:
  \<^item> \<^verbatim>\<open>(?:\+?965)?[569]\d{7}\<close>
  \<^item> \<^verbatim>\<open>[569]\d{7}\<close>
  \<^item> \<^verbatim>\<open>\+965\s?[569]\d{7}\<close>
\<close>

definition kuwait_patterns :: "rx list" where
  "kuwait_patterns =
    [seq [country_prefix (A ''965''), one_of (A ''569''), Rep 7 Digit],
     seq [one_of (A ''569''), Rep 7 Digit],
     seq [lit (A ''+965''), Opt (Chr Space), one_of (A ''569''), Rep 7 Digit]]"

text \<open>\<open>all_patterns\<close> is the entry \<open>"all"\<close>: the first two patterns of Egypt, the first two of
  Saudi Arabia, and the first of the Emirates and of Kuwait.\<close>

definition all_patterns :: "rx list" where
  "all_patterns =
    [seq [country_prefix (A ''2''), lit (A ''01''), one_of (A ''0125''), Rep 8 Digit],
     seq [lit (A ''01''), one_of (A ''0125''), Rep 8 Digit],
     seq [country_prefix (A ''966''), Opt (one_of (A ''0'')), lit (A ''5''), Chr (Range 48 57),
          Rep 7 Digit],
     seq [lit (A ''05''), Chr (Range 48 57), Rep 7 Digit],
     seq [country_prefix (A ''971''), Opt (one_of (A ''0'')), lit (A ''5''), Chr (Range 48 57),
          Rep 7 Digit],
     seq [country_prefix (A ''965''), one_of (A ''569''), Rep 7 Digit]]"

definition PHONE_PATTERNS_BY_COUNTRY :: "(ustr \<times> rx list) list" where
  "PHONE_PATTERNS_BY_COUNTRY =
    [(A ''egypt'', egypt_patterns), (A ''saudi'', saudi_patterns), (A ''uae'', uae_patterns),
     (A ''kuwait'', kuwait_patterns), (A ''all'', all_patterns)]"

text \<open>
  The e-mail pattern \<^verbatim>\<open>[a-zA-Z0-9._%+-]+@[a-zA-Z0-9.-]+\.[a-zA-Z]{2,}\<close>, the pattern
  \<^verbatim>\<open>[\s\-]\<close> removed from a phone match, \<^verbatim>\<open>[\s\-\+]\<close> removed before the country
  of a phone is guessed, and the pattern \<^verbatim>\<open>\s*[-|U+2013]\s*.*\<close> cut from a title (its
  class holds the hyphen, the bar and the en dash).
\<close>

definition letter :: cls where
  "letter = Or (Range 97 122) (Range 65 90)"

definition local_char :: cls where
  "local_char = Or (Range 97 122) (Or (Range 65 90) (Or (Range 48 57) (Chars (A ''._%+-''))))"

definition domain_char :: cls where
  "domain_char = Or (Range 97 122) (Or (Range 65 90) (Or (Range 48 57) (Chars (A ''.-''))))"

definition email_pattern :: rx where
  "email_pattern =
     seq [Chr local_char, Star local_char, lit (A ''@''), Chr domain_char, Star domain_char,
          lit (A ''.''), Rep 2 letter, Star letter]"

definition space_or_dash :: rx where
  "space_or_dash = Chr (Or Space (Chars (A ''-'')))"

definition space_dash_or_plus :: rx where
  "space_dash_or_plus = Chr (Or Space (Chars (A ''-+'')))"

definition name_suffix_pattern :: rx where
  "name_suffix_pattern = seq [Star Space, one_of [45, 124, 8211], Star Space, Star Dot]"

definition CUSTOMER_INTENT_KEYWORDS :: "ustr list" where
  "CUSTOMER_INTENT_KEYWORDS =
     [ar_need, ar_want, ar_looking_for, ar_who_knows, ar_point_me_to, ar_wish_someone,
      ar_someone_recommends, ar_someone_knows, ar_your_experience_with, ar_anyone_tried]"

text \<open>
  A lead is a dictionary with eight keys, all set where it is created: \<open>source\<close> is the
  URL of the result the lead came from, and \<open>lead_notes\<close> is the key \<open>notes\<close>.
\<close>

record lead =
  name :: ustr
  phone :: ustr
  email :: ustr
  source :: ustr
  lead_notes :: ustr
  status :: ustr
  country :: ustr
  lead_type :: ustr

definition detect_phone_country :: "pylib \<Rightarrow> ustr \<Rightarrow> ustr" where
  "detect_phone_country L ph =
     (if ph = [] then A ''unknown''
      else
        (let clean = sub_empty L space_dash_or_plus ph in
         if startswith clean (A ''20'') \<or> startswith clean (A ''01'') then A ''egypt''
         else if startswith clean (A ''966'') \<or> startswith clean (A ''05'') then A ''saudi''
         else if startswith clean (A ''971'') \<or> (startswith clean (A ''05'') \<and> length clean = 10)
           then A ''uae''
         else if startswith clean (A ''965'') then A ''kuwait''
         else A ''unknown''))"

text \<open>
  The two inner loops of \<open>extract_leads_from_results\<close>: every match of every pattern,
  cleaned of whitespace and dashes, is kept when it has at least 8 characters and has
  not been seen in this call. The state is \<open>(phones, seen_phones)\<close>.
\<close>

fun match_loop :: "pylib \<Rightarrow> ustr list \<Rightarrow> ustr list \<times> ustr set \<Rightarrow> ustr list \<times> ustr set" where
  "match_loop L [] st = st"
| "match_loop L (m # ms) (phones, seen_phones) =
     (let clean_phone = sub_empty L space_or_dash m in
      if 8 \<le> length clean_phone \<and> clean_phone \<notin> seen_phones
      then match_loop L ms (phones @ [clean_phone], insert clean_phone seen_phones)
      else match_loop L ms (phones, seen_phones))"

fun pattern_loop ::
  "pylib \<Rightarrow> rx list \<Rightarrow> ustr \<Rightarrow> ustr list \<times> ustr set \<Rightarrow> ustr list \<times> ustr set" where
  "pattern_loop L [] text st = st"
| "pattern_loop L (pattern # rest) text st =
     pattern_loop L rest text (match_loop L (findall L pattern text) st)"

text \<open>
  One turn of the outer loop. The state is \<open>(leads, seen_phones, seen_urls)\<close>. In
  \<open>phones or emails or (include_no_phone and has_customer_intent and url not in seen_urls)\<close>
  a list counts as true when it is not empty.
\<close>

definition result_text :: "raw_result \<Rightarrow> ustr" where
  "result_text result = get_or (title result) [] @ A '' '' @ get_or (snippet result) []"

definition has_customer_intent :: "ustr \<Rightarrow> bool" where
  "has_customer_intent text = list_ex (\<lambda>kw. contains text kw) CUSTOMER_INTENT_KEYWORDS"

definition make_lead :: "pylib \<Rightarrow> ustr \<Rightarrow> raw_result \<Rightarrow> ustr list \<Rightarrow> ustr list \<Rightarrow> lead" where
  "make_lead L ctry result phones emails =
     \<lparr>name = slice_to 60
               (sub_empty L name_suffix_pattern (get_or (title result) ar_potential_customer)),
      phone = (case phones of [] \<Rightarrow> [] | p # ps \<Rightarrow> p),
      email = (case emails of [] \<Rightarrow> [] | e # es \<Rightarrow> e),
      source = get_or (link result) [],
      lead_notes = slice_to 300 (get_or (snippet result) []),
      status = A ''new'',
      country = (case phones of [] \<Rightarrow> ctry | p # ps \<Rightarrow> detect_phone_country L p),
      lead_type =
        (if phones \<noteq> [] then A ''with_phone''
         else if emails \<noteq> [] then A ''with_email''
         else A ''potential'')\<rparr>"

definition extract_step ::
  "pylib \<Rightarrow> rx list \<Rightarrow> ustr \<Rightarrow> bool \<Rightarrow> lead list \<times> ustr set \<times> ustr set \<Rightarrow> raw_result \<Rightarrow>
   lead list \<times> ustr set \<times> ustr set" where
  "extract_step L phone_patterns ctry include_no_phone st result =
     (case st of (leads, seen_phones, seen_urls) \<Rightarrow>
        (let text = result_text result;
             url = get_or (link result) []
         in case pattern_loop L phone_patterns text ([], seen_phones) of
              (phones, seen_phones') \<Rightarrow>
                (let emails = findall L email_pattern text;
                     should_include =
                       (phones \<noteq> [] \<or> emails \<noteq> [] \<or>
                        (include_no_phone \<and> has_customer_intent text \<and> url \<notin> seen_urls))
                 in if should_include
                    then (leads @ [make_lead L ctry result phones emails], seen_phones',
                          insert url seen_urls)
                    else (leads, seen_phones', seen_urls))))"

definition phone_patterns_for :: "ustr \<Rightarrow> rx list" where
  "phone_patterns_for ctry =
     (let phone_patterns = dict_get PHONE_PATTERNS_BY_COUNTRY ctry all_patterns
      in if ctry \<noteq> A ''all'' then phone_patterns @ all_patterns else phone_patterns)"

definition extract_leads_from_results :: "pylib \<Rightarrow> raw_result list \<Rightarrow> ustr \<Rightarrow> bool \<Rightarrow> lead list" where
  "extract_leads_from_results L results ctry include_no_phone =
     fst (foldl (extract_step L (phone_patterns_for ctry) ctry include_no_phone)
            ([], {}, {}) results)"

section \<open>SearchService.hunt_leads\<close>

text \<open>
  The acceptance loop, which \<open>hunt_leads\<close> runs after every search. The state is
  \<open>(all_leads, seen_phones, seen_emails)\<close>.
\<close>

definition accept_step ::
  "lead list \<times> ustr set \<times> ustr set \<Rightarrow> lead \<Rightarrow> lead list \<times> ustr set \<times> ustr set" where
  "accept_step st ld =
     (case st of (all_leads, seen_phones, seen_emails) \<Rightarrow>
        if phone ld \<noteq> [] \<and> phone ld \<notin> seen_phones
          then (all_leads @ [ld], insert (phone ld) seen_phones, seen_emails)
        else if email ld \<noteq> [] \<and> email ld \<notin> seen_emails \<and> phone ld = []
          then (all_leads @ [ld], seen_phones, insert (email ld) seen_emails)
        else st)"

definition accept_leads ::
  "lead list \<times> ustr set \<times> ustr set \<Rightarrow> lead list \<Rightarrow> lead list \<times> ustr set \<times> ustr set" where
  "accept_leads st leads = foldl accept_step st leads"

text \<open>
  The three fallback loops have one body: leave the loop when the quota is met,
  otherwise search, extract (with \<open>include_no_phone\<close> at its default \<open>True\<close>) and accept.
  The state also carries the log of requests sent.
\<close>

fun query_loop ::
  "pylib \<Rightarrow> ustr option \<Rightarrow> network \<Rightarrow> ustr \<Rightarrow> int \<Rightarrow>
   (lead list \<times> ustr set \<times> ustr set) \<times> http_request list \<Rightarrow> ustr list \<Rightarrow>
   (lead list \<times> ustr set \<times> ustr set) \<times> http_request list" where
  "query_loop L key net ctry max_results (st, log) [] = (st, log)"
| "query_loop L key net ctry max_results (st, log) (search_query # rest) =
     (if max_results \<le> int (length (fst st)) then (st, log)
      else
        (case search_with_country key net log search_query ctry max_results of
           (results, log') \<Rightarrow>
             query_loop L key net ctry max_results
               (accept_leads st (extract_leads_from_results L results ctry True), log') rest))"

definition egypt_phone_patterns :: ustr where
  "egypt_phone_patterns =
     concat [A ''('', dq, A ''010'', dq, A '' OR '', dq, A ''011'', dq, A '' OR '', dq,
             A ''012'', dq, A '' OR '', dq, A ''015'', dq, A '')'']"

definition phone_patterns_map :: "(ustr \<times> ustr) list" where
  "phone_patterns_map =
    [(A ''egypt'', egypt_phone_patterns),
     (A ''saudi'',
      concat [A ''('', dq, A ''05'', dq, A '' OR '', dq, A ''9665'', dq, A '' OR '', dq,
              A ''966'', dq, A '')'']),
     (A ''uae'',
      concat [A ''('', dq, A ''050'', dq, A '' OR '', dq, A ''055'', dq, A '' OR '', dq,
              A ''9714'', dq, A '')'']),
     (A ''kuwait'', concat [A ''('', dq, A ''965'', dq, A '')''])]"

definition country_names :: "(ustr \<times> ustr) list" where
  "country_names =
    [(A ''egypt'', ar_egypt), (A ''saudi'', ar_saudi), (A ''uae'', ar_uae),
     (A ''kuwait'', ar_kuwait)]"

definition phone_heavy_queries :: "ustr \<Rightarrow> ustr \<Rightarrow> ustr \<Rightarrow> ustr list" where
  "phone_heavy_queries service city phone_patterns =
     [concat [A ''site:facebook.com ('', dq, ar_need, A '' '', service, dq, A '' OR '', dq,
              ar_want, A '' '', service, dq, A '') '', dq, city, dq, A '' '', phone_patterns],
      concat [A ''site:facebook.com ('', dq, ar_who_knows, A '' '', service, dq, A '' OR '', dq,
              ar_point_me_to, A '' '', service, dq, A '') '', dq, city, dq, A '' '',
              phone_patterns],
      concat [A ''site:instagram.com ('', dq, ar_need, A '' '', service, dq, A '' OR '', dq,
              ar_looking_for, A '' '', service, dq, A '') '', city, A '' '', phone_patterns],
      concat [dq, ar_wish_someone_recommends, A '' '', service, dq, A '' OR '', dq,
              ar_someone_knows, A '' '', service, A '' '', ar_good, dq, A '' '', city],
      concat [dq, city, dq, A '' ('', dq, ar_need, A '' '', service, A '' '', ar_urgently, dq,
              A '' OR '', dq, ar_want, A '' '', service, A '' '', ar_good, dq, A '') '',
              phone_patterns],
      concat [dq, ar_anyone_tried, A '' '', service, dq, A '' OR '', dq,
              ar_your_experience_with, A '' '', service, dq, A '' '', city, A '' '',
              phone_patterns]]"

definition generic_queries :: "ustr \<Rightarrow> ustr \<Rightarrow> ustr \<Rightarrow> ustr \<Rightarrow> ustr list" where
  "generic_queries service city country_name phone_patterns =
     [concat [dq, ar_need, A '' '', service, dq, A '' '', country_name, A '' '', phone_patterns],
      concat [dq, ar_want, A '' '', service, dq, A '' '', city, A '' '', phone_patterns],
      concat [dq, ar_who_knows, A '' '', service, A '' '', ar_good, dq, A '' '', city],
      concat [dq, ar_looking_for, A '' '', service, dq, A '' '', city, A '' '', phone_patterns],
      concat [dq, ar_someone_recommends, A '' '', service, dq, A '' '', country_name]]"

text \<open>
  The golden wave, for the resolved country: build the golden query, search with three
  times the quota, extract and accept. \<open>generate_golden_query\<close> cannot raise on strings, so
  the \<open>except\<close> branch of the source is never taken; the test \<open>if not golden_query\<close>
  is kept as written.
\<close>

definition golden_query_for :: "pylib \<Rightarrow> ustr \<Rightarrow> ustr \<Rightarrow> ustr \<Rightarrow> ustr \<Rightarrow> ustr" where
  "golden_query_for L query city strategy ctry =
     (let phone_patterns = dict_get phone_patterns_map ctry egypt_phone_patterns;
          golden_query = generate_golden_query L query city strategy (Some ctry)
      in if golden_query = []
         then concat [A ''site:facebook.com '', dq, query, dq, A '' '', dq, city, dq, A '' '',
                      phone_patterns]
         else golden_query)"

definition golden_wave ::
  "pylib \<Rightarrow> ustr option \<Rightarrow> network \<Rightarrow> http_request list \<Rightarrow> ustr \<Rightarrow> ustr \<Rightarrow> int \<Rightarrow> ustr \<Rightarrow>
   ustr \<Rightarrow> (lead list \<times> ustr set \<times> ustr set) \<times> http_request list" where
  "golden_wave L key net log query city max_results strategy ctry =
     (let golden_query = golden_query_for L query city strategy ctry
      in case search_with_country key net log golden_query ctry (max_results * 3) of
           (results, log') \<Rightarrow>
             (accept_leads ([], {}, {}) (extract_leads_from_results L results ctry True), log'))"

text \<open>
  \<open>hunt_leads\<close> returns the accepted leads cut to \<open>max_results\<close>; the model returns the
  log of requests with them.
\<close>

definition hunt_leads ::
  "pylib \<Rightarrow> ustr option \<Rightarrow> network \<Rightarrow> http_request list \<Rightarrow> ustr \<Rightarrow> ustr \<Rightarrow> int \<Rightarrow> ustr \<Rightarrow>
   ustr option \<Rightarrow> lead list \<times> http_request list" where
  "hunt_leads L key net log query city max_results strategy country_arg =
     (let ctry = resolve_country L country_arg city;
          phone_patterns = dict_get phone_patterns_map ctry egypt_phone_patterns;
          s1 = golden_wave L key net log query city max_results strategy ctry;
          service = extract_service query;
          s2 = query_loop L key net ctry max_results s1
                 (phone_heavy_queries service city phone_patterns);
          s3 = (if int (length (fst (fst s2))) < max_results
                then query_loop L key net ctry max_results s2
                       (generate_fallback_queries L query city (Some ctry))
                else s2);
          s4 = (if int (length (fst (fst s3))) < max_results
                then query_loop L key net ctry max_results s3
                       (generic_queries service city (dict_get country_names ctry ar_egypt)
                          phone_patterns)
                else s3)
      in (slice_to max_results (fst (fst s4)), snd s4))"

section \<open>DuplicateChecker\<close>

text \<open>
  \<open>_normalize_phone\<close>: remove whitespace, dashes, dots and parentheses, then a leading
  \<open>+2\<close> or else a leading \<open>002\<close>.
\<close>

definition separator :: rx where
  "separator = Chr (Or Space (Chars (A ''-.()'')))"

definition normalize_phone :: "pylib \<Rightarrow> ustr \<Rightarrow> ustr" where
  "normalize_phone L ph =
     (let p = sub_empty L separator ph in
      if startswith p (A ''+2'') then drop 2 p
      else if startswith p (A ''002'') then drop 3 p
      else p)"

text \<open>
  The database as \<open>DuplicateChecker\<close> reads it: the module variables \<open>DB_TYPE\<close> and
  \<open>pg_conn\<close> of \<open>app.core.database\<close>, and the value under the key \<open>"leads"\<close> of
  \<open>LOCAL_DB\<close>. A connection is given by what its two queries do, up to the assignment of
  the set built from \<open>fetchall\<close>: they raise, or they give the column of the selected rows
  (the e-mail query is given the user id). \<open>database.py\<close> starts \<open>LOCAL_DB["leads"]\<close> as
  the list \<open>[]\<close> and \<open>lead_service.py\<close> appends to it and rebinds it to a list; the
  two readers below call \<open>.items()\<close> and \<open>.get\<close> on it, which a list does not have and a
  dict of lists keyed by user id has.
\<close>

record postgres =
  phone_rows :: "ustr list py"
  email_rows :: "ustr \<Rightarrow> ustr list py"

datatype store = Lead_list "lead list" | Lead_dict "(ustr \<times> lead list) list"

record database =
  DB_TYPE :: ustr
  pg_conn :: "postgres option"
  LOCAL_leads :: "store option"

text \<open>
  The test \<open>DB_TYPE == "replit_pg" and pg_conn\<close>, and \<open>LOCAL_DB.get("leads", {})\<close>.
\<close>

definition replit_pg :: "database \<Rightarrow> postgres option" where
  "replit_pg db = (if DB_TYPE db = A ''replit_pg'' then pg_conn db else None)"

definition local_leads_or_empty :: "database \<Rightarrow> store" where
  "local_leads_or_empty db = get_or (LOCAL_leads db) (Lead_dict [])"

text \<open>
  \<open>get_existing_phones\<close> and \<open>get_existing_emails\<close>. With Postgres an exception of the
  query is caught and the set stays empty. Otherwise nothing is caught: \<open>.items()\<close> and
  \<open>.get\<close> on a list raise \<open>AttributeError\<close>.
\<close>

definition get_existing_phones :: "database \<Rightarrow> ustr \<Rightarrow> ustr set py" where
  "get_existing_phones db user_id =
     (case replit_pg db of
        Some conn \<Rightarrow>
          (case phone_rows conn of
             Raises \<Rightarrow> Returns {}
           | Returns rows \<Rightarrow> Returns (set rows))
      | None \<Rightarrow>
          (case local_leads_or_empty db of
             Lead_list ls \<Rightarrow> Raises
           | Lead_dict d \<Rightarrow>
               Returns (set (filter (\<lambda>p. p \<noteq> []) (map phone (concat (map snd d)))))))"

definition get_existing_emails :: "pylib \<Rightarrow> database \<Rightarrow> ustr \<Rightarrow> ustr set py" where
  "get_existing_emails L db user_id =
     (case replit_pg db of
        Some conn \<Rightarrow>
          (case email_rows conn user_id of
             Raises \<Rightarrow> Returns {}
           | Returns rows \<Rightarrow> Returns (set (map (lower L) rows)))
      | None \<Rightarrow>
          (case local_leads_or_empty db of
             Lead_list ls \<Rightarrow> Raises
           | Lead_dict d \<Rightarrow>
               Returns (set (map (\<lambda>l. lower L (email l))
                               (filter (\<lambda>l. email l \<noteq> []) (dict_get d user_id []))))))"

text \<open>
  \<open>filter_duplicates\<close>: the two reads, then the loop. The state of the loop is
  \<open>(unique_leads, new_phones, new_emails)\<close>; a lead with a phone has it replaced by the
  normalised phone before the tests, and \<open>continue\<close> leaves the state as it is. An
  exception of a read leaves the method before the loop.
\<close>

definition filter_step ::
  "pylib \<Rightarrow> ustr set \<Rightarrow> ustr set \<Rightarrow> lead list \<times> ustr set \<times> ustr set \<Rightarrow> lead \<Rightarrow>
   lead list \<times> ustr set \<times> ustr set" where
  "filter_step L existing_phones existing_emails st ld =
     (case st of (unique_leads, new_phones, new_emails) \<Rightarrow>
        (let ph = (if phone ld \<noteq> [] then normalize_phone L (phone ld) else phone ld);
             ld' = ld\<lparr>phone := ph\<rparr>;
             em = strip (lower L (email ld))
         in if ph \<noteq> [] then
              (if ph \<in> existing_phones \<or> ph \<in> new_phones then st
               else (unique_leads @ [ld'], insert ph new_phones, new_emails))
            else if em \<noteq> [] then
              (if em \<in> existing_emails \<or> em \<in> new_emails then st
               else (unique_leads @ [ld'], new_phones, insert em new_emails))
            else st))"

definition filter_loop :: "pylib \<Rightarrow> ustr set \<Rightarrow> ustr set \<Rightarrow> lead list \<Rightarrow> lead list" where
  "filter_loop L existing_phones existing_emails leads =
     fst (foldl (filter_step L existing_phones existing_emails) ([], {}, {}) leads)"

definition filter_duplicates :: "pylib \<Rightarrow> database \<Rightarrow> ustr \<Rightarrow> lead list \<Rightarrow> lead list py" where
  "filter_duplicates L db user_id leads =
     (case get_existing_phones db user_id of
        Raises \<Rightarrow> Raises
      | Returns existing_phones \<Rightarrow>
          (case get_existing_emails L db user_id of
             Raises \<Rightarrow> Raises
           | Returns existing_emails \<Rightarrow>
               Returns (filter_loop L existing_phones existing_emails leads)))"

section \<open>The requested count\<close>

text \<open>\<open>HuntRequest.validate_max\<close> of \<open>app/schemas/requests.py\<close>: \<open>min(max(1, v), 50)\<close>.\<close>

definition validate_max :: "int \<Rightarrow> int" where
  "validate_max v = min (max 1 v) 50"

text \<open>
  \<open>build_smart_query\<close>. The context is a dictionary; \<open>None\<close> is an absent key. Its
  \<open>count\<close> is an integer here, on which \<open>int()\<close> is the identity.
\<close>

record hunt_context =
  business_type :: "ustr option"
  service_field :: "ustr option"
  location :: "ustr option"
  count_field :: "int option"
  extra_info :: "ustr option"

definition build_smart_query :: "hunt_context \<Rightarrow> ustr \<times> ustr \<times> int" where
  "build_smart_query ctx =
     (let business = get_or (business_type ctx) [];
          service = get_or (service_field ctx) [];
          loc = get_or (location ctx) ar_egypt;
          n = get_or (count_field ctx) 20;
          extra = get_or (extra_info ctx) [];
          search_term = (if service \<noteq> [] then service else business);
          search_term' = (if search_term = [] \<and> extra \<noteq> [] then slice_to 50 extra
                          else search_term)
      in (search_term', loc, min (max n 5) 50))"

text \<open>
  \<open>int(s)\<close> for a string \<open>s\<close> of decimal digits, which is all the count step gives it:
  a \<open>ValueError\<close> on the empty string and on a string longer than the interpreter's
  limit, the number otherwise.
\<close>

fun digits_value :: "pylib \<Rightarrow> int \<Rightarrow> ustr \<Rightarrow> int option" where
  "digits_value L acc [] = Some acc"
| "digits_value L acc (c # cs) =
     (case decimal_value L c of
        None \<Rightarrow> None
      | Some d \<Rightarrow> digits_value L (10 * acc + int d) cs)"

definition int_of_digits :: "pylib \<Rightarrow> ustr \<Rightarrow> int py" where
  "int_of_digits L s =
     (if s = [] then Raises
      else if 0 < int_max_str_digits L \<and> int_max_str_digits L < length s then Raises
      else (case digits_value L 0 s of None \<Rightarrow> Raises | Some n \<Rightarrow> Returns n))"

text \<open>
  The count step of \<open>GuidedHuntSession.process_response\<close>: the reply is stripped, its
  non-digits are removed, the rest is converted and clamped; the bare \<open>except\<close> puts 20
  for a reply that cannot be converted.
\<close>

definition count_step :: "pylib \<Rightarrow> ustr \<Rightarrow> int" where
  "count_step L response =
     (let v = strip response in
      case int_of_digits L (sub_empty L (Chr NonDigit) v) of
        Returns n \<Rightarrow> max 5 (min 50 n)
      | Raises \<Rightarrow> 20)"

section \<open>Notions the claims are stated with\<close>

text \<open>
  A runtime to run the model on: \<open>lower\<close> maps the ASCII capitals to small letters and
  leaves every other code point alone, and no code point outside ASCII is a decimal
  digit. On ASCII text it does what CPython does.
\<close>

definition example_runtime :: pylib where
  "example_runtime =
     \<lparr>lower = map (\<lambda>c. if 65 \<le> c \<and> c \<le> 90 then c + 32 else c),
      decimal = (\<lambda>c. None),
      int_max_str_digits = 4300\<rparr>"

text \<open>
  Clamping as the specification words it: a value below \<open>lo\<close> becomes \<open>lo\<close>, a value
  above \<open>hi\<close> becomes \<open>hi\<close>.
\<close>

definition clamp :: "int \<Rightarrow> int \<Rightarrow> int \<Rightarrow> int" where
  "clamp lo hi x = (if x < lo then lo else if hi < x then hi else x)"

text \<open>
  A backend call fails when the request meets an exception or a status other than 200,
  or when decoding the body or walking it (\<open>walk\<close>, the backend's loop) raises.
\<close>

definition request_fails ::
  "(body \<Rightarrow> int \<Rightarrow> raw_result list py) \<Rightarrow> http_response py \<Rightarrow> int \<Rightarrow> bool" where
  "request_fails walk outcome max_results =
     (case outcome of
        Raises \<Rightarrow> True
      | Returns response \<Rightarrow>
          status_code response \<noteq> 200 \<or>
          (case json response of
             Raises \<Rightarrow> True
           | Returns data \<Rightarrow> walk data max_results = Raises))"

text \<open>A network that is down: Serper times out, DuckDuckGo answers 503.\<close>

definition down :: network where
  "down log req =
     (case req of
        Post_serper k q g h n \<Rightarrow> Raises
      | Get_duckduckgo q \<Rightarrow> Returns \<lparr>status_code = 503, json = Raises\<rparr>)"

text \<open>
  For \<open>filter_duplicates\<close>: the phone and the e-mail of a candidate as the filter
  compares them, and the phones and e-mails of the candidates kept so far. A kept
  candidate carries its normalised phone, and it was kept by its e-mail exactly when
  that phone is empty.
\<close>

definition normalized_phone :: "pylib \<Rightarrow> lead \<Rightarrow> ustr" where
  "normalized_phone L ld = (if phone ld \<noteq> [] then normalize_phone L (phone ld) else [])"

definition normalized_email :: "pylib \<Rightarrow> lead \<Rightarrow> ustr" where
  "normalized_email L ld = strip (lower L (email ld))"

definition accepted_phones :: "lead list \<Rightarrow> ustr set" where
  "accepted_phones kept = phone ` {k \<in> set kept. phone k \<noteq> []}"

definition accepted_emails :: "pylib \<Rightarrow> lead list \<Rightarrow> ustr set" where
  "accepted_emails L kept = normalized_email L ` {k \<in> set kept. phone k = []}"

definition filter_inv :: "pylib \<Rightarrow> lead list \<times> ustr set \<times> ustr set \<Rightarrow> bool" where
  "filter_inv L st =
     (case st of (unique_leads, new_phones, new_emails) \<Rightarrow>
        new_phones = accepted_phones unique_leads \<and>
        new_emails = accepted_emails L unique_leads)"

text \<open>
  For \<open>extract_leads_from_results\<close>: the state of its outer loop after the results
  \<open>results\<close>; what a cleaned phone is (at least 8 characters, none of them whitespace or
  the dash U+002D); and the lead type that the contact fields of a lead call for.
\<close>

definition extract_run ::
  "pylib \<Rightarrow> ustr \<Rightarrow> bool \<Rightarrow> raw_result list \<Rightarrow> lead list \<times> ustr set \<times> ustr set" where
  "extract_run L ctry include_no_phone results =
     foldl (extract_step L (phone_patterns_for ctry) ctry include_no_phone) ([], {}, {}) results"

definition clean_phone_ok :: "ustr \<Rightarrow> bool" where
  "clean_phone_ok p = (8 \<le> length p \<and> list_all (\<lambda>c. \<not> isspace c \<and> c \<noteq> 45) p)"

definition lead_type_of :: "lead \<Rightarrow> ustr" where
  "lead_type_of ld =
     (if phone ld \<noteq> [] then A ''with_phone''
      else if email ld \<noteq> [] then A ''with_email''
      else A ''potential'')"

text \<open>
  The blob of a result (its title, a space, its snippet) holds a customer-intent phrase
  when one of the phrases of \<open>CUSTOMER_INTENT_KEYWORDS\<close> occurs in it.
\<close>

definition holds_intent_phrase :: "raw_result \<Rightarrow> bool" where
  "holds_intent_phrase result =
     (\<exists>kw\<in>set CUSTOMER_INTENT_KEYWORDS. \<exists>pre post. result_text result = pre @ kw @ post)"

text \<open>
  The turn of result \<open>i\<close> makes lead \<open>j\<close> of the call: the results before \<open>i\<close> give the
  first \<open>j\<close> leads of the call, and with result \<open>i\<close> they give the first \<open>j + 1\<close>. The
  leads that precede lead \<open>j\<close> in the returned list are then the leads that the call
  had made when the turn of result \<open>i\<close> came.
\<close>

definition made_at :: "pylib \<Rightarrow> ustr \<Rightarrow> bool \<Rightarrow> raw_result list \<Rightarrow> nat \<Rightarrow> nat \<Rightarrow> bool" where
  "made_at L ctry include_no_phone results i j =
     (i < length results \<and>
      extract_leads_from_results L (take i results) ctry include_no_phone =
        take j (extract_leads_from_results L results ctry include_no_phone) \<and>
      extract_leads_from_results L (take (Suc i) results) ctry include_no_phone =
        take (Suc j) (extract_leads_from_results L results ctry include_no_phone))"

text \<open>
  What the loop keeps true: a lead is made of its result \<open>r\<close> from cleaned phones and
  matched e-mails, and with neither only if the flag is set, the text of \<open>r\<close> passes the
  intent test and the URL of \<open>r\<close> is the source of none of the leads made earlier;
  \<open>seen_urls\<close> is the set of the sources of the leads made so far.
\<close>

definition made_by :: "pylib \<Rightarrow> ustr \<Rightarrow> bool \<Rightarrow> raw_result \<Rightarrow> lead list \<Rightarrow> lead \<Rightarrow> bool" where
  "made_by L ctry flag r earlier ld =
     (\<exists>phones emails.
        ld = make_lead L ctry r phones emails \<and>
        list_all clean_phone_ok phones \<and> list_all (\<lambda>e. e \<noteq> []) emails \<and>
        (phones \<noteq> [] \<or> emails \<noteq> [] \<or>
         (flag \<and> has_customer_intent (result_text r) \<and>
          get_or (link r) [] \<notin> source ` set earlier)))"

definition run_inv :: "pylib \<Rightarrow> ustr \<Rightarrow> bool \<Rightarrow> raw_result list \<Rightarrow> bool" where
  "run_inv L ctry flag rs =
     (snd (snd (extract_run L ctry flag rs)) =
        source ` set (extract_leads_from_results L rs ctry flag) \<and>
      (\<forall>j<length (extract_leads_from_results L rs ctry flag).
         \<exists>i. made_at L ctry flag rs i j \<and>
             made_by L ctry flag (rs ! i) (take j (extract_leads_from_results L rs ctry flag))
               (extract_leads_from_results L rs ctry flag ! j)))"

text \<open>Two search results to run the extractor on, and the leads it makes of them.\<close>

definition phone_result :: raw_result where
  "phone_result =
     \<lparr>title = Some (A ''Call 01012345678 - now''), link = Some (A ''http://a''),
      snippet = Some (A ''flats''), backend = Some (A ''serper'')\<rparr>"

definition intent_result :: raw_result where
  "intent_result =
     \<lparr>title = Some (ar_need @ A '' a dentist''), link = Some (A ''http://b''),
      snippet = None, backend = None\<rparr>"

definition phone_lead :: lead where
  "phone_lead =
     \<lparr>name = A ''Call 01012345678'', phone = A ''01012345678'', email = [],
      source = A ''http://a'', lead_notes = A ''flats'', status = A ''new'',
      country = A ''egypt'', lead_type = A ''with_phone''\<rparr>"

definition intent_lead :: lead where
  "intent_lead =
     \<lparr>name = ar_need @ A '' a dentist'', phone = [], email = [],
      source = A ''http://b'', lead_notes = [], status = A ''new'',
      country = A ''egypt'', lead_type = A ''potential''\<rparr>"

text \<open>
  For \<open>hunt_leads\<close>. A lead has a contact when it has a phone or an e-mail. The leads of
  a list have unique contacts when no two leads with a phone carry the same phone string
  and no two leads without a phone carry the same e-mail string. \<open>seen_covers\<close> and
  \<open>contact_state\<close> are what the acceptance loop keeps true of its state. \<open>query_of\<close> is
  the query a request carries.
\<close>

definition has_contact :: "lead \<Rightarrow> bool" where
  "has_contact ld = (phone ld \<noteq> [] \<or> email ld \<noteq> [])"

definition unique_contacts :: "lead list \<Rightarrow> bool" where
  "unique_contacts leads =
     (distinct (map phone (filter (\<lambda>ld. phone ld \<noteq> []) leads)) \<and>
      distinct (map email (filter (\<lambda>ld. phone ld = []) leads)))"

definition seen_covers :: "lead list \<times> ustr set \<times> ustr set \<Rightarrow> bool" where
  "seen_covers st =
     (case st of (all_leads, seen_phones, seen_emails) \<Rightarrow>
        unique_contacts all_leads \<and>
        set (map phone (filter (\<lambda>ld. phone ld \<noteq> []) all_leads)) \<subseteq> seen_phones \<and>
        set (map email (filter (\<lambda>ld. phone ld = []) all_leads)) \<subseteq> seen_emails)"

definition contact_lead :: "lead \<Rightarrow> bool" where
  "contact_lead ld = (has_contact ld \<and> lead_type ld \<noteq> A ''potential'')"

definition contact_state :: "lead list \<times> ustr set \<times> ustr set \<Rightarrow> bool" where
  "contact_state st = list_all contact_lead (fst st)"

definition query_of :: "http_request \<Rightarrow> ustr" where
  "query_of req = (case req of Post_serper k q g h n \<Rightarrow> q | Get_duckduckgo q \<Rightarrow> q)"

text \<open>
  A run of \<open>hunt_leads\<close>: the city is Cairo in Arabic (the default of the source), and
  the network answers every request with the same two Serper items, which give one
  Egyptian number in its local and in its international spelling.
\<close>

definition cairo :: ustr where
  "cairo = [1575, 1604, 1602, 1575, 1607, 1585, 1577]"

definition two_spellings :: network where
  "two_spellings log req =
     Returns \<lparr>status_code = 200,
              json = Returns (Dict [(A ''organic'',
                Items [Object [(A ''title'', A ''Dr A 01012345678''), (A ''link'', A ''http://a'')],
                       Object [(A ''title'', A ''Dr B +201012345678''), (A ''link'', A ''http://b'')]])])\<rparr>"

definition local_lead :: lead where
  "local_lead =
     \<lparr>name = A ''Dr A 01012345678'', phone = A ''01012345678'', email = [],
      source = A ''http://a'', lead_notes = [], status = A ''new'',
      country = A ''egypt'', lead_type = A ''with_phone''\<rparr>"

definition international_lead :: lead where
  "international_lead =
     \<lparr>name = A ''Dr B +201012345678'', phone = A ''+201012345678'', email = [],
      source = A ''http://b'', lead_notes = [], status = A ''new'',
      country = A ''egypt'', lead_type = A ''with_phone''\<rparr>"

text \<open>
  Inputs of the scenarios that the specification lists: a result whose text gives a
  phone number between Arabic words ("to get in touch call ... flats for sale", with an
  em dash), the city Riyadh, and a candidate lead with a given phone.
\<close>

definition contact_blob :: ustr where
  "contact_blob =
     [1604, 1604, 1578, 1608, 1575, 1589, 1604, 32, 1575, 1578, 1589, 1604, 32] @
     A ''01012345678'' @
     [32, 8212, 32, 1588, 1602, 1602, 32, 1604, 1604, 1576, 1610, 1593]"

definition riyadh :: ustr where
  "riyadh = [1575, 1604, 1585, 1610, 1575, 1590]"

definition candidate :: "ustr \<Rightarrow> lead" where
  "candidate ph =
     \<lparr>name = [], phone = ph, email = [], source = [], lead_notes = [], status = A ''new'',
      country = [], lead_type = A ''with_phone''\<rparr>"

text \<open>
  Two databases: Postgres mode with given rows for the two queries, and the in-memory
  store as \<open>database.py\<close> sets it up.
\<close>

definition postgres_db :: "ustr list \<Rightarrow> ustr list \<Rightarrow> database" where
  "postgres_db phones emails =
     \<lparr>DB_TYPE = A ''replit_pg'',
      pg_conn = Some \<lparr>phone_rows = Returns phones, email_rows = (\<lambda>user_id. Returns emails)\<rparr>,
      LOCAL_leads = Some (Lead_list [])\<rparr>"

definition local_db :: database where
  "local_db = \<lparr>DB_TYPE = A ''local'', pg_conn = None, LOCAL_leads = Some (Lead_list [])\<rparr>"

section \<open>Properties of the string helpers\<close>

lemma startswith_iff_take: "startswith s p \<longleftrightarrow> take (length p) s = p"
  by (induction s p rule: startswith.induct) auto

lemma startswith_append: "startswith (p @ s) p"
  by (simp add: startswith_iff_take)

lemma contains_iff: "contains s sub \<longleftrightarrow> (\<exists>pre post. s = pre @ sub @ post)"
proof (induction s)
  case Nil
  then show ?case by auto
next
  case (Cons c cs)
  show ?case
  proof
    assume "contains (c # cs) sub"
    then consider "startswith (c # cs) sub" | "contains cs sub" by auto
    then show "\<exists>pre post. c # cs = pre @ sub @ post"
    proof cases
      case 1
      then have "c # cs = [] @ sub @ drop (length sub) (c # cs)"
        by (metis append_Nil append_take_drop_id startswith_iff_take)
      then show ?thesis by blast
    next
      case 2
      then obtain pre post where "cs = pre @ sub @ post" using Cons.IH by blast
      then have "c # cs = (c # pre) @ sub @ post" by simp
      then show ?thesis by blast
    qed
  next
    assume "\<exists>pre post. c # cs = pre @ sub @ post"
    then obtain pre post where eq: "c # cs = pre @ sub @ post" by blast
    show "contains (c # cs) sub"
    proof (cases pre)
      case Nil
      then have "startswith (c # cs) sub" using eq by (simp add: startswith_iff_take)
      then show ?thesis by simp
    next
      case (Cons a pre')
      then have "cs = pre' @ sub @ post" using eq by simp
      then show ?thesis using Cons.IH by auto
    qed
  qed
qed

lemma strip_prefix_loop_find:
  "strip_prefix_loop ps query =
     (case find (startswith query) ps of None \<Rightarrow> query | Some p \<Rightarrow> drop (length p) query)"
  by (induction ps) auto

section \<open>Claims about AIService._extract_service\<close>

text \<open>
  C8, as the code has it. The query loses the first prefix of the ordered list that it
  starts with, and only that one; then leading and trailing whitespace is removed from
  what is left. A query that starts with none of the prefixes is returned with its
  leading and trailing whitespace removed, so it comes back unchanged only when it has
  none.
\<close>

theorem extract_service_first_prefix:
  "extract_service query =
     strip (case find (startswith query) prefixes of
              None \<Rightarrow> query
            | Some p \<Rightarrow> drop (length p) query)"
  by (simp add: extract_service_def strip_prefix_loop_find)

text \<open>
  C8 as stated fails: the query \<open>" x"\<close> starts with no prefix of the list, and the
  function returns \<open>"x"\<close>, not the original text.
\<close>

theorem extract_service_not_unchanged:
  "find (startswith (A '' x'')) prefixes = None \<and> extract_service (A '' x'') = A ''x'' \<and>
   extract_service (A '' x'') \<noteq> A '' x''"
  by (simp add: extract_service_def prefixes_def A_def strip_def lstrip_def rstrip_def isspace_def)

section \<open>The requested count\<close>

lemma sub_from_Chr: "sub_from L (Chr c) 0 s = filter (\<lambda>x. \<not> cls_mem L c x) s"
  by (induction s) auto

lemma sub_empty_Chr: "sub_empty L (Chr c) s = filter (\<lambda>x. \<not> cls_mem L c x) s"
  by (simp add: sub_empty_def sub_from_Chr)

text \<open>
  C6, as the code has it. \<open>HuntRequest.validate_max\<close> clamps into 1 to 50;
  \<open>build_smart_query\<close> clamps an integer count into 5 to 50 and takes 20 for an absent
  one; the guided count step converts the decimal digits of the stripped reply and clamps
  the number into 5 to 50, taking 20 when they cannot be converted, so that its value
  is between 5 and 50 whatever the reply.
\<close>

theorem requested_count_clamps:
  "validate_max v = clamp 1 50 v \<and>
   snd (snd (build_smart_query (ctx\<lparr>count_field := Some n\<rparr>))) = clamp 5 50 n \<and>
   snd (snd (build_smart_query (ctx\<lparr>count_field := None\<rparr>))) = 20 \<and>
   count_step L response =
     (case int_of_digits L (filter (isdecimal L) (strip response)) of
        Returns k \<Rightarrow> clamp 5 50 k
      | Raises \<Rightarrow> 20) \<and>
   5 \<le> count_step L response \<and> count_step L response \<le> 50"
  by (auto simp: validate_max_def clamp_def build_smart_query_def get_or_def Let_def
      count_step_def sub_empty_Chr split: py.split)

text \<open>
  C6 as stated fails at the schema validator: a request for 3 results stays a request
  for 3, below the range 5 to 50.
\<close>

theorem validate_max_below_five:
  "validate_max 3 = 3 \<and> \<not> (5 \<le> validate_max 3 \<and> validate_max 3 \<le> 50)"
  by (simp add: validate_max_def)

section \<open>AIService.detect_country\<close>

lemma city_loop_iff:
  "city_loop city cs \<longleftrightarrow> list_ex (\<lambda>c. contains city c \<or> contains c city) cs"
  by (induction cs) auto

lemma country_loop_find:
  "country_loop city tab =
     map_option fst
       (find (\<lambda>entry. list_ex (\<lambda>c. contains city c \<or> contains c city) (cities (snd entry)))
          tab)"
  by (induction tab) (auto simp: city_loop_iff)

lemma country_loop_codes: "country_loop city tab = Some code \<Longrightarrow> code \<in> fst ` set tab"
  by (induction tab) (auto split: if_splits)

text \<open>
  C7. \<open>detect_country\<close> is a function of the city (and of \<open>str.lower\<close>): its value is the
  code of the first entry of \<open>COUNTRY_CONFIGS\<close>, in table order, one of whose cities is
  contained in the city string or contains it; when there is none, the keyword tests
  for Saudi Arabia, the Emirates and Kuwait decide, in that order, on the lowered and
  stripped city; when none of them holds it is \<open>"egypt"\<close>. It has a value for every
  city, and the value is one of the four country codes.
\<close>

theorem detect_country_resolution:
  "detect_country L city =
     (case find (\<lambda>entry. list_ex (\<lambda>c. contains city c \<or> contains c city) (cities (snd entry)))
             COUNTRY_CONFIGS of
        Some entry \<Rightarrow> fst entry
      | None \<Rightarrow>
          if list_ex (contains (strip (lower L city))) saudi_keywords then A ''saudi''
          else if list_ex (contains (strip (lower L city))) uae_keywords then A ''uae''
          else if list_ex (contains (strip (lower L city))) kuwait_keywords then A ''kuwait''
          else A ''egypt'') \<and>
   detect_country L city \<in> {A ''egypt'', A ''saudi'', A ''uae'', A ''kuwait''}"
proof -
  have codes: "fst ` set COUNTRY_CONFIGS = {A ''egypt'', A ''saudi'', A ''uae'', A ''kuwait''}"
    by (auto simp: COUNTRY_CONFIGS_def)
  have "detect_country L city \<in> {A ''egypt'', A ''saudi'', A ''uae'', A ''kuwait''}"
    using country_loop_codes[of city COUNTRY_CONFIGS] codes
    by (auto simp: detect_country_def Let_def split: option.splits)
  moreover have "detect_country L city =
     (case find (\<lambda>entry. list_ex (\<lambda>c. contains city c \<or> contains c city) (cities (snd entry)))
             COUNTRY_CONFIGS of
        Some entry \<Rightarrow> fst entry
      | None \<Rightarrow>
          if list_ex (contains (strip (lower L city))) saudi_keywords then A ''saudi''
          else if list_ex (contains (strip (lower L city))) uae_keywords then A ''uae''
          else if list_ex (contains (strip (lower L city))) kuwait_keywords then A ''kuwait''
          else A ''egypt'')"
    by (simp add: detect_country_def Let_def country_loop_find split: option.splits)
  ultimately show ?thesis by blast
qed

section \<open>The search backends\<close>

lemma search_serper_fails:
  assumes "k \<noteq> []"
    and "request_fails serper_body
           (net log (Post_serper k query (A ''eg'') (A ''ar'') max_results)) max_results"
  shows "search_serper (Some k) net log query max_results =
           ([], log @ [Post_serper k query (A ''eg'') (A ''ar'') max_results])"
  using assms
  by (auto simp: request_fails_def search_serper_def serper_try_def truthy_def get_or_def Let_def
      split: py.splits option.splits)

lemma search_duckduckgo_fails:
  assumes "request_fails duckduckgo_body (net log (Get_duckduckgo query)) max_results"
  shows "search_duckduckgo net log query max_results = ([], log @ [Get_duckduckgo query])"
  using assms
  by (auto simp: request_fails_def search_duckduckgo_def duckduckgo_try_def Let_def
      split: py.splits option.splits)

text \<open>
  C9. A Serper call (with an API key set) or a DuckDuckGo call whose request meets an
  exception or a status other than 200, or whose body cannot be decoded or walked,
  returns the empty list, having sent that one request; the functions return a list in
  every case, so nothing reaches the caller as an error. \<open>search\<close> returns the Serper
  results when there are any and the DuckDuckGo results otherwise.
\<close>

theorem backend_failure_is_empty_result:
  "(k \<noteq> [] \<and>
    request_fails serper_body
      (net log (Post_serper k query (A ''eg'') (A ''ar'') max_results)) max_results
      \<longrightarrow> search_serper (Some k) net log query max_results =
            ([], log @ [Post_serper k query (A ''eg'') (A ''ar'') max_results])) \<and>
   (request_fails duckduckgo_body (net log (Get_duckduckgo query)) max_results
      \<longrightarrow> search_duckduckgo net log query max_results = ([], log @ [Get_duckduckgo query])) \<and>
   search key net log query max_results =
     (if fst (search_serper key net log query max_results) \<noteq> []
      then search_serper key net log query max_results
      else search_duckduckgo net (snd (search_serper key net log query max_results))
             query max_results)"
  by (auto simp: search_serper_fails search_duckduckgo_fails search_def split: prod.splits)

theorem backend_failure_witness:
  "A ''key'' \<noteq> [] \<and>
   request_fails serper_body
     (down [] (Post_serper (A ''key'') (A ''dentist'') (A ''eg'') (A ''ar'') 20)) 20 \<and>
   request_fails duckduckgo_body (down [] (Get_duckduckgo (A ''dentist''))) 20 \<and>
   search_serper (Some (A ''key'')) down [] (A ''dentist'') 20 =
     ([], [Post_serper (A ''key'') (A ''dentist'') (A ''eg'') (A ''ar'') 20]) \<and>
   search_duckduckgo down [] (A ''dentist'') 20 = ([], [Get_duckduckgo (A ''dentist'')])"
  using backend_failure_is_empty_result [of "A ''key''" down "[]" "A ''dentist''" 20]
  by (simp add: request_fails_def down_def A_def)

section \<open>DuplicateChecker.filter_duplicates\<close>

lemma accepted_phones_snoc:
  "accepted_phones (u @ [k]) =
     (if phone k \<noteq> [] then insert (phone k) (accepted_phones u) else accepted_phones u)"
  by (auto simp: accepted_phones_def)

lemma accepted_emails_snoc:
  "accepted_emails L (u @ [k]) =
     (if phone k = [] then insert (normalized_email L k) (accepted_emails L u)
      else accepted_emails L u)"
  by (auto simp: accepted_emails_def)

lemma normalized_email_phone_update [simp]:
  "normalized_email L (ld\<lparr>phone := p\<rparr>) = normalized_email L ld"
  by (simp add: normalized_email_def)

lemma filter_step_inv:
  assumes "filter_inv L st"
  shows "filter_inv L (filter_step L EP EE st ld)"
proof -
  obtain u np ne where st: "st = (u, np, ne)" by (metis prod_cases3)
  with assms have np: "np = accepted_phones u" and ne: "ne = accepted_emails L u"
    by (simp_all add: filter_inv_def)
  show ?thesis
    unfolding st filter_step_def Let_def
    by (simp add: filter_inv_def np ne accepted_phones_snoc accepted_emails_snoc
        normalized_email_def[symmetric])
qed

lemma filter_loop_inv: "filter_inv L (foldl (filter_step L EP EE) ([], {}, {}) leads)"
proof (induction leads rule: rev_induct)
  case Nil
  show ?case by (simp add: filter_inv_def accepted_phones_def accepted_emails_def)
next
  case (snoc ld leads)
  then show ?case by (simp add: filter_step_inv)
qed

lemma filter_loop_snoc:
  "filter_loop L EP EE (leads @ [ld]) =
     filter_loop L EP EE leads @
     (if (if normalized_phone L ld \<noteq> []
          then normalized_phone L ld \<notin> EP \<and>
               normalized_phone L ld \<notin> accepted_phones (filter_loop L EP EE leads)
          else normalized_email L ld \<noteq> [] \<and> normalized_email L ld \<notin> EE \<and>
               normalized_email L ld \<notin> accepted_emails L (filter_loop L EP EE leads))
      then [ld\<lparr>phone := normalized_phone L ld\<rparr>]
      else [])"
proof -
  obtain u np ne where st: "foldl (filter_step L EP EE) ([], {}, {}) leads = (u, np, ne)"
    by (metis prod_cases3)
  have "filter_inv L (u, np, ne)" using filter_loop_inv[of L EP EE leads] st by simp
  then have np: "np = accepted_phones u" and ne: "ne = accepted_emails L u"
    by (simp_all add: filter_inv_def)
  show ?thesis
    by (simp add: filter_loop_def st np ne filter_step_def Let_def normalized_phone_def
        normalized_email_def)
qed

text \<open>
  The two reads return in Postgres mode, whatever the queries do, and with them the
  call. With the in-memory store that \<open>database.py\<close> and \<open>lead_service.py\<close> keep, a list,
  the first read raises, and so does the call.
\<close>

lemma postgres_reads_return:
  assumes "replit_pg db = Some conn"
  shows "\<exists>EP EE. get_existing_phones db user_id = Returns EP \<and>
                 get_existing_emails L db user_id = Returns EE \<and>
                 filter_duplicates L db user_id leads = Returns (filter_loop L EP EE leads)"
  using assms
  by (cases "phone_rows conn"; cases "email_rows conn user_id")
     (simp_all add: get_existing_phones_def get_existing_emails_def filter_duplicates_def)

lemma local_list_raises:
  assumes "replit_pg db = None" and "LOCAL_leads db = Some (Lead_list ls)"
  shows "get_existing_phones db user_id = Raises \<and> filter_duplicates L db user_id leads = Raises"
  using assms
  by (simp add: get_existing_phones_def filter_duplicates_def local_leads_or_empty_def get_or_def)

lemma local_db_raises: "filter_duplicates L local_db user_id leads = Raises"
  using local_list_raises[of local_db "[]" user_id L leads]
  by (simp add: local_db_def replit_pg_def A_def)

text \<open>
  C5, as the code has it, for the calls in which \<open>get_existing_phones\<close> and
  \<open>get_existing_emails\<close> return; \<open>EP\<close> and \<open>EE\<close> are the sets they return. The call then
  returns, and nothing of no candidates. Let \<open>kept\<close> be what it returns of the candidates
  \<open>leads\<close>, and let \<open>ld\<close> come next. If the normalised phone of \<open>ld\<close> is not empty, \<open>ld\<close>
  is kept (carrying that phone) exactly when the phone is neither among the existing
  phones \<open>EP\<close> nor among the phones kept earlier in the call. If it is empty (\<open>ld\<close> has
  no phone, or one that normalises to nothing), \<open>ld\<close> is kept exactly when its lowered
  and stripped e-mail is not empty and is neither among the existing e-mails \<open>EE\<close> nor
  among the e-mails kept earlier. A candidate with neither is dropped. Nothing else
  changes the result.
\<close>

theorem filter_duplicates_keeps:
  assumes "get_existing_phones db user_id = Returns EP"
    and "get_existing_emails L db user_id = Returns EE"
  shows "filter_duplicates L db user_id [] = Returns [] \<and>
         (\<exists>kept. filter_duplicates L db user_id leads = Returns kept \<and>
            filter_duplicates L db user_id (leads @ [ld]) =
              Returns
                (kept @
                 (if (if normalized_phone L ld \<noteq> []
                      then normalized_phone L ld \<notin> EP \<and>
                           normalized_phone L ld \<notin> accepted_phones kept
                      else normalized_email L ld \<noteq> [] \<and> normalized_email L ld \<notin> EE \<and>
                           normalized_email L ld \<notin> accepted_emails L kept)
                  then [ld\<lparr>phone := normalized_phone L ld\<rparr>]
                  else [])))"
proof -
  have fd: "filter_duplicates L db user_id xs = Returns (filter_loop L EP EE xs)" for xs
    using assms by (simp add: filter_duplicates_def)
  have "filter_loop L EP EE [] = []" by (simp add: filter_loop_def)
  then show ?thesis using filter_loop_snoc[of L EP EE leads ld] by (simp add: fd)
qed

theorem filter_duplicates_keeps_witness:
  "get_existing_phones (postgres_db [A ''01012345678''] []) (A ''u1'') =
     Returns {A ''01012345678''} \<and>
   get_existing_emails example_runtime (postgres_db [A ''01012345678''] []) (A ''u1'') =
     Returns {} \<and>
   filter_duplicates example_runtime (postgres_db [A ''01012345678''] []) (A ''u1'')
     [candidate (A ''+20 101 234 5678'')] = Returns [] \<and>
   filter_duplicates example_runtime (postgres_db [A ''01012345678''] []) (A ''u1'')
     [candidate (A ''+20 101 234 5678''), candidate (A ''010-9999-9999'')] =
     Returns [candidate (A ''01099999999'')]"
proof -
  have reads:
    "get_existing_phones (postgres_db [A ''01012345678''] []) (A ''u1'') =
       Returns {A ''01012345678''}"
    "get_existing_emails example_runtime (postgres_db [A ''01012345678''] []) (A ''u1'') =
       Returns {}"
    by (simp_all add: get_existing_phones_def get_existing_emails_def postgres_db_def
        replit_pg_def)
  show ?thesis
    using filter_duplicates_keeps[OF reads, of "[candidate (A ''+20 101 234 5678'')]"
        "candidate (A ''010-9999-9999'')"]
    by (simp add: filter_duplicates_def filter_loop_def filter_step_def normalize_phone_def
        get_existing_phones_def get_existing_emails_def postgres_db_def replit_pg_def
        sub_empty_Chr separator_def isspace_def candidate_def A_def Let_def
        normalized_phone_def normalized_email_def accepted_phones_def accepted_emails_def)
qed

text \<open>
  C5 as stated fails, in Postgres mode with no rows: a candidate whose phone is \<open>"-"\<close>
  has a phone, its normalised phone (the empty string) is in neither set, and with no
  e-mail it is dropped.
\<close>

theorem filter_duplicates_drops_blank_phone:
  "get_existing_phones (postgres_db [] []) (A ''u1'') = Returns {} \<and>
   get_existing_emails example_runtime (postgres_db [] []) (A ''u1'') = Returns {} \<and>
   phone \<lparr>name = [], phone = A ''-'', email = [], source = [], lead_notes = [], status = [],
          country = [], lead_type = []\<rparr> \<noteq> [] \<and>
   normalize_phone example_runtime (A ''-'') \<notin> {} \<union> {} \<and>
   filter_duplicates example_runtime (postgres_db [] []) (A ''u1'')
     [\<lparr>name = [], phone = A ''-'', email = [], source = [], lead_notes = [], status = [],
       country = [], lead_type = []\<rparr>] = Returns []"
  by (simp add: filter_duplicates_def filter_loop_def filter_step_def normalize_phone_def
      get_existing_phones_def get_existing_emails_def postgres_db_def replit_pg_def
      example_runtime_def A_def sub_empty_def separator_def isspace_def strip_def lstrip_def
      rstrip_def)

section \<open>SearchService.extract_leads_from_results\<close>

lemma ends_length: "s' \<in> set (ends L r s) \<Longrightarrow> length s' \<le> length s"
proof (induction r arbitrary: s s')
  case Eps
  then show ?case by simp
next
  case (Chr c)
  then show ?case by (cases s) (auto split: if_splits)
next
  case (Seq a b)
  then obtain s1 where "s1 \<in> set (ends L a s)" "s' \<in> set (ends L b s1)" by auto
  then show ?case using Seq.IH(1)[of s1 s] Seq.IH(2)[of s' s1] by linarith
next
  case (Opt a)
  then show ?case by auto
next
  case (Rep n c)
  then show ?case by (auto split: if_splits)
next
  case (Star c)
  then show ?case by auto
qed

lemma ends_Chr_first:
  assumes "s' \<in> set (ends L (Seq (Chr c) b) s)"
  shows "length s' < length s"
proof -
  from assms obtain s1 where s1: "s1 \<in> set (ends L (Chr c) s)" "s' \<in> set (ends L b s1)" by auto
  then have "length s1 < length s" by (cases s) (auto split: if_splits)
  moreover have "length s' \<le> length s1" using s1(2) by (rule ends_length)
  ultimately show ?thesis by linarith
qed

lemma findall_from_nonempty:
  assumes "\<And>s s'. s' \<in> set (ends L r s) \<Longrightarrow> length s' < length s"
  shows "m \<in> set (findall_from L r k s) \<Longrightarrow> m \<noteq> []"
proof (induction s arbitrary: k)
  case Nil
  have "ends L r [] = []"
  proof (cases "ends L r []")
    case (Cons a as)
    then have "a \<in> set (ends L r [])" by simp
    from assms[OF this] show ?thesis by simp
  qed simp
  with Nil show ?case by simp
next
  case (Cons c cs)
  show ?case
  proof (cases "0 < k")
    case True
    with Cons show ?thesis by simp
  next
    case False
    show ?thesis
    proof (cases "ends L r (c # cs)")
      case Nil
      with False Cons show ?thesis by simp
    next
      case (Cons rest more)
      then have "rest \<in> set (ends L r (c # cs))" by simp
      from assms[OF this] have lt: "length rest < Suc (length cs)" by simp
      from Cons.prems False Cons
      have "m = take (Suc (length cs) - length rest) (c # cs) \<or>
            m \<in> set (findall_from L r (Suc (length cs) - length rest - 1) cs)"
        by (simp add: Let_def)
      then show ?thesis
      proof
        assume "m = take (Suc (length cs) - length rest) (c # cs)"
        moreover have "0 < Suc (length cs) - length rest" using lt by simp
        ultimately show ?thesis by (cases "Suc (length cs) - length rest") auto
      next
        assume "m \<in> set (findall_from L r (Suc (length cs) - length rest - 1) cs)"
        then show ?thesis by (rule Cons.IH)
      qed
    qed
  qed
qed

lemma seq_Cons: "seq (x # xs) = Seq x (seq xs)"
  by (simp add: seq_def)

lemma email_matches_nonempty: "m \<in> set (findall L email_pattern text) \<Longrightarrow> m \<noteq> []"
  unfolding findall_def email_pattern_def seq_Cons
  by (rule findall_from_nonempty[OF ends_Chr_first])

lemma cleaned_ok:
  "8 \<le> length (sub_empty L space_or_dash m) \<Longrightarrow> clean_phone_ok (sub_empty L space_or_dash m)"
  by (auto simp: clean_phone_ok_def space_or_dash_def sub_empty_Chr list_all_iff A_def)

lemma match_loop_ok:
  "list_all clean_phone_ok (fst st) \<Longrightarrow> list_all clean_phone_ok (fst (match_loop L ms st))"
proof (induction ms arbitrary: st)
  case Nil
  then show ?case by simp
next
  case (Cons m ms)
  obtain phones seen where st: "st = (phones, seen)" by (cases st)
  show ?case
    using Cons.prems cleaned_ok[of L m]
    by (auto simp: st Let_def intro!: Cons.IH)
qed

lemma pattern_loop_ok:
  "list_all clean_phone_ok (fst st) \<Longrightarrow> list_all clean_phone_ok (fst (pattern_loop L ps text st))"
proof (induction ps arbitrary: st)
  case Nil
  then show ?case by simp
next
  case (Cons p ps)
  have "list_all clean_phone_ok (fst (match_loop L (findall L p text) st))"
    using Cons.prems by (rule match_loop_ok)
  then show ?case by (simp add: Cons.IH)
qed

lemma clean_phone_nonempty: "clean_phone_ok p \<Longrightarrow> p \<noteq> []"
  by (auto simp: clean_phone_ok_def)

lemma make_lead_fields:
  assumes "list_all clean_phone_ok phones" and "list_all (\<lambda>e. e \<noteq> []) emails"
  shows "(phone (make_lead L ctry r phones emails) \<noteq> [] \<longleftrightarrow> phones \<noteq> []) \<and>
         (email (make_lead L ctry r phones emails) \<noteq> [] \<longleftrightarrow> emails \<noteq> []) \<and>
         (phone (make_lead L ctry r phones emails) \<noteq> [] \<longrightarrow>
            clean_phone_ok (phone (make_lead L ctry r phones emails))) \<and>
         lead_type (make_lead L ctry r phones emails) =
           lead_type_of (make_lead L ctry r phones emails) \<and>
         source (make_lead L ctry r phones emails) = get_or (link r) []"
  using assms
  by (cases phones; cases emails)
     (auto simp: make_lead_def lead_type_of_def dest: clean_phone_nonempty)

text \<open>What one turn of the loop does to the state.\<close>

lemma extract_step_cases:
  assumes "extract_step L ps ctry flag (leads, sp, su) r = (leads', sp', su')"
  shows "(leads' = leads \<and> su' = su) \<or>
         (\<exists>phones emails.
            leads' = leads @ [make_lead L ctry r phones emails] \<and>
            su' = insert (get_or (link r) []) su \<and>
            list_all clean_phone_ok phones \<and> list_all (\<lambda>e. e \<noteq> []) emails \<and>
            (phones \<noteq> [] \<or> emails \<noteq> [] \<or>
             (flag \<and> has_customer_intent (result_text r) \<and> get_or (link r) [] \<notin> su)))"
proof -
  obtain phones sp1 where pl: "pattern_loop L ps (result_text r) ([], sp) = (phones, sp1)"
    by (cases "pattern_loop L ps (result_text r) ([], sp)")
  have ok: "list_all clean_phone_ok phones"
    using pattern_loop_ok[of "([], sp)" L ps "result_text r"] pl by simp
  have em: "list_all (\<lambda>e. e \<noteq> []) (findall L email_pattern (result_text r))"
    by (simp add: list_all_iff email_matches_nonempty)
  show ?thesis
    using assms ok em
    by (auto simp: extract_step_def Let_def pl split: if_splits)
qed

lemma extract_as_run:
  "extract_leads_from_results L results ctry flag = fst (extract_run L ctry flag results)"
  by (simp add: extract_leads_from_results_def extract_run_def)

lemma extract_run_snoc:
  "extract_run L ctry flag (rs @ [r]) =
     extract_step L (phone_patterns_for ctry) ctry flag (extract_run L ctry flag rs) r"
  by (simp add: extract_run_def)

lemma has_customer_intent_iff: "has_customer_intent (result_text r) \<longleftrightarrow> holds_intent_phrase r"
  by (simp add: has_customer_intent_def holds_intent_phrase_def list_ex_iff contains_iff)

lemma made_by_fields:
  assumes "made_by L ctry flag r earlier ld"
  shows "(phone ld \<noteq> [] \<or> email ld \<noteq> [] \<or>
          (flag \<and> holds_intent_phrase r \<and> get_or (link r) [] \<notin> source ` set earlier)) \<and>
         (phone ld \<noteq> [] \<longrightarrow> clean_phone_ok (phone ld)) \<and>
         lead_type ld = lead_type_of ld \<and>
         source ld = get_or (link r) []"
proof -
  from assms obtain phones emails where ld: "ld = make_lead L ctry r phones emails"
    and ok: "list_all clean_phone_ok phones" "list_all (\<lambda>e. e \<noteq> []) emails"
    and why: "phones \<noteq> [] \<or> emails \<noteq> [] \<or>
       (flag \<and> has_customer_intent (result_text r) \<and> get_or (link r) [] \<notin> source ` set earlier)"
    unfolding made_by_def by blast
  note f = make_lead_fields[OF ok, of L ctry r]
  show ?thesis using f why unfolding ld has_customer_intent_iff by blast
qed

lemma made_at_snoc:
  assumes "made_at L ctry flag rs i j"
    and "j < length (extract_leads_from_results L rs ctry flag)"
    and "extract_leads_from_results L (rs @ [r]) ctry flag =
         extract_leads_from_results L rs ctry flag @ extra"
  shows "made_at L ctry flag (rs @ [r]) i j"
  using assms by (simp add: made_at_def)

lemma made_at_last:
  assumes "extract_leads_from_results L (rs @ [r]) ctry flag =
           extract_leads_from_results L rs ctry flag @ [ld]"
  shows "made_at L ctry flag (rs @ [r]) (length rs)
           (length (extract_leads_from_results L rs ctry flag))"
  using assms by (simp add: made_at_def)

lemma extract_run_inv: "run_inv L ctry flag rs"
proof (induction rs rule: rev_induct)
  case Nil
  show ?case by (simp add: run_inv_def extract_run_def extract_leads_from_results_def)
next
  case (snoc r rs)
  let ?E = "\<lambda>xs. extract_leads_from_results L xs ctry flag"
  obtain leads sp su where run: "extract_run L ctry flag rs = (leads, sp, su)"
    by (metis prod_cases3)
  obtain leads' sp' su' where step:
    "extract_step L (phone_patterns_for ctry) ctry flag (leads, sp, su) r = (leads', sp', su')"
    by (metis prod_cases3)
  have E: "?E rs = leads" by (simp add: extract_as_run run)
  have run': "extract_run L ctry flag (rs @ [r]) = (leads', sp', su')"
    by (simp add: extract_run_snoc run step)
  have E': "?E (rs @ [r]) = leads'" by (simp add: extract_as_run run')
  from snoc have su: "su = source ` set leads"
    and old: "\<And>j. j < length leads \<Longrightarrow>
           \<exists>i. made_at L ctry flag rs i j \<and> made_by L ctry flag (rs ! i) (take j leads) (leads ! j)"
    by (simp_all add: run_inv_def run E)
  have old': "\<exists>i. made_at L ctry flag (rs @ [r]) i j \<and>
                  made_by L ctry flag ((rs @ [r]) ! i) (take j leads') (leads' ! j)"
    if j: "j < length leads" and ext: "leads' = leads @ extra" for j extra
  proof -
    from old[OF j] obtain i where i: "made_at L ctry flag rs i j"
      "made_by L ctry flag (rs ! i) (take j leads) (leads ! j)" by blast
    have lt: "i < length rs" using i(1) by (simp add: made_at_def)
    have "made_at L ctry flag (rs @ [r]) i j"
      by (rule made_at_snoc[OF i(1), where extra = extra]) (simp_all add: E E' j ext)
    moreover have "made_by L ctry flag ((rs @ [r]) ! i) (take j leads') (leads' ! j)"
      using i(2) lt j by (simp add: ext nth_append)
    ultimately show ?thesis by blast
  qed
  from extract_step_cases[OF step]
  show ?case
  proof
    assume same: "leads' = leads \<and> su' = su"
    then have "leads' = leads @ []" by simp
    from old'[OF _ this] same su show ?thesis
      by (simp add: run_inv_def run' E')
  next
    assume "\<exists>phones emails.
            leads' = leads @ [make_lead L ctry r phones emails] \<and>
            su' = insert (get_or (link r) []) su \<and>
            list_all clean_phone_ok phones \<and> list_all (\<lambda>e. e \<noteq> []) emails \<and>
            (phones \<noteq> [] \<or> emails \<noteq> [] \<or>
             (flag \<and> has_customer_intent (result_text r) \<and> get_or (link r) [] \<notin> su))"
    then obtain phones emails where new:
      "leads' = leads @ [make_lead L ctry r phones emails]"
      "su' = insert (get_or (link r) []) su"
      "list_all clean_phone_ok phones" "list_all (\<lambda>e. e \<noteq> []) emails"
      "phones \<noteq> [] \<or> emails \<noteq> [] \<or>
       (flag \<and> has_customer_intent (result_text r) \<and> get_or (link r) [] \<notin> su)"
      by blast
    let ?ld = "make_lead L ctry r phones emails"
    note f = make_lead_fields[OF new(3) new(4), of L ctry r]
    have urls: "su' = source ` set leads'" using new(1,2) su f by simp
    have last: "made_at L ctry flag (rs @ [r]) (length rs) (length leads)"
      using made_at_last[of L rs r ctry flag ?ld] by (simp add: E E' new(1))
    have by_r: "made_by L ctry flag ((rs @ [r]) ! length rs) (take (length leads) leads')
                  (leads' ! length leads)"
      unfolding made_by_def using new(3,4,5) by (auto simp: new(1) su)
    have "\<exists>i. made_at L ctry flag (rs @ [r]) i j \<and>
              made_by L ctry flag ((rs @ [r]) ! i) (take j leads') (leads' ! j)"
      if "j < length leads'" for j
    proof (cases "j < length leads")
      case True
      then show ?thesis by (rule old'[OF _ new(1)])
    next
      case False
      with that have "j = length leads" by (simp add: new(1))
      then show ?thesis using last by_r by blast
    qed
    then show ?thesis using urls by (simp add: run_inv_def run' E')
  qed
qed

text \<open>
  C3. Every lead that \<open>extract_leads_from_results\<close> returns is made by the turn of one
  of the results, \<open>i\<close>, and carries the URL of that result as its source. It has a phone,
  or an e-mail, or else the flag is set, the blob of result \<open>i\<close> holds a customer-intent
  phrase, and the URL of result \<open>i\<close> is the source of none of the leads made before it
  in the call. A phone it carries has at least 8 characters, none of them whitespace or
  a dash. Its \<open>lead_type\<close> is \<open>with_phone\<close> if it has a phone, else \<open>with_email\<close> if it
  has an e-mail, else \<open>potential\<close>.
\<close>

theorem extracted_lead_has_contact_or_intent:
  assumes "leads = extract_leads_from_results L results ctry include_no_phone"
    and "j < length leads"
  shows "(\<exists>i. made_at L ctry include_no_phone results i j \<and>
              source (leads ! j) = get_or (link (results ! i)) [] \<and>
              (phone (leads ! j) \<noteq> [] \<or> email (leads ! j) \<noteq> [] \<or>
               (include_no_phone \<and> holds_intent_phrase (results ! i) \<and>
                get_or (link (results ! i)) [] \<notin> source ` set (take j leads)))) \<and>
         (phone (leads ! j) \<noteq> [] \<longrightarrow>
            8 \<le> length (phone (leads ! j)) \<and>
            list_all (\<lambda>c. \<not> isspace c \<and> c \<noteq> 45) (phone (leads ! j))) \<and>
         lead_type (leads ! j) =
           (if phone (leads ! j) \<noteq> [] then A ''with_phone''
            else if email (leads ! j) \<noteq> [] then A ''with_email''
            else A ''potential'')"
proof -
  from extract_run_inv[of L ctry include_no_phone results] assms
  obtain i where i: "made_at L ctry include_no_phone results i j"
    "made_by L ctry include_no_phone (results ! i) (take j leads) (leads ! j)"
    unfolding run_inv_def by blast
  note f = made_by_fields[OF i(2)]
  have "\<exists>i. made_at L ctry include_no_phone results i j \<and>
              source (leads ! j) = get_or (link (results ! i)) [] \<and>
              (phone (leads ! j) \<noteq> [] \<or> email (leads ! j) \<noteq> [] \<or>
               (include_no_phone \<and> holds_intent_phrase (results ! i) \<and>
                get_or (link (results ! i)) [] \<notin> source ` set (take j leads)))"
    using i(1) f by blast
  then show ?thesis using f by (simp add: clean_phone_ok_def lead_type_of_def)
qed

lemmas eval_defs =
  extract_leads_from_results_def extract_step_def phone_patterns_for_def
  PHONE_PATTERNS_BY_COUNTRY_def egypt_patterns_def all_patterns_def dict_get_def get_or_def
  result_text_def A_def example_runtime_def isdecimal_def decimal_value_def findall_def
  seq_def lit_def one_of_def country_prefix_def dash_or_space_def email_pattern_def
  local_char_def domain_char_def letter_def has_customer_intent_def
  CUSTOMER_INTENT_KEYWORDS_def make_lead_def sub_empty_def space_or_dash_def
  space_dash_or_plus_def name_suffix_pattern_def isspace_def Let_def
  detect_phone_country_def slice_to_def ar_need_def ar_want_def ar_looking_for_def
  ar_who_knows_def ar_point_me_to_def ar_wish_someone_def ar_someone_recommends_def
  ar_someone_knows_def ar_your_experience_with_def ar_anyone_tried_def

lemma example_extraction:
  "extract_leads_from_results example_runtime [phone_result, intent_result] (A ''egypt'') True =
     [phone_lead, intent_lead]"
  by (simp add: eval_defs phone_result_def intent_result_def phone_lead_def intent_lead_def)

theorem extracted_lead_witness:
  "extract_leads_from_results example_runtime [phone_result, intent_result] (A ''egypt'') True =
     [phone_lead, intent_lead] \<and>
   phone intent_lead = [] \<and> email intent_lead = [] \<and>
   (\<exists>i. made_at example_runtime (A ''egypt'') True [phone_result, intent_result] i (Suc 0) \<and>
        source intent_lead = get_or (link ([phone_result, intent_result] ! i)) [] \<and>
        holds_intent_phrase ([phone_result, intent_result] ! i) \<and>
        get_or (link ([phone_result, intent_result] ! i)) [] \<notin> source ` set [phone_lead]) \<and>
   lead_type intent_lead = A ''potential''"
proof -
  have i: "phone intent_lead = []" "email intent_lead = []"
    by (simp_all add: intent_lead_def)
  show ?thesis
    using extracted_lead_has_contact_or_intent[OF example_extraction[symmetric], of "Suc 0"] i
    by (simp add: example_extraction)
qed

text \<open>
  A second result with the URL of an earlier lead, and with an intent phrase but neither
  phone nor e-mail, gives no lead.
\<close>

lemma example_same_url:
  "extract_leads_from_results example_runtime [intent_result, intent_result] (A ''egypt'') True =
     [intent_lead]"
  by (simp add: eval_defs intent_result_def intent_lead_def)

section \<open>SearchService.hunt_leads\<close>

text \<open>What the acceptance loop keeps true, every loop of \<open>hunt_leads\<close> keeps true.\<close>

lemma accept_leads_preserves:
  assumes "\<And>st ld. P st \<Longrightarrow> Q ld \<Longrightarrow> P (accept_step st ld)"
    and "P st" and "list_all Q leads"
  shows "P (accept_leads st leads)"
  using assms(2,3) unfolding accept_leads_def
proof (induction leads arbitrary: st)
  case Nil
  then show ?case by simp
next
  case (Cons ld leads)
  then show ?case using assms(1) by simp
qed

lemma query_loop_preserves:
  assumes "\<And>st results. P st \<Longrightarrow>
             P (accept_leads st (extract_leads_from_results L results ctry True))"
    and "P (fst s)"
  shows "P (fst (query_loop L key net ctry max_results s qs))"
  using assms(2)
proof (induction qs arbitrary: s)
  case Nil
  then show ?case by (cases s) simp
next
  case (Cons q qs)
  obtain st log where s: "s = (st, log)" by (cases s)
  show ?case
  proof (cases "max_results \<le> int (length (fst st))")
    case True
    then show ?thesis using Cons.prems by (simp add: s)
  next
    case False
    obtain results log' where sw:
      "search_with_country key net log q ctry max_results = (results, log')"
      by (cases "search_with_country key net log q ctry max_results")
    have "P (fst (accept_leads st (extract_leads_from_results L results ctry True), log'))"
      using assms(1) Cons.prems by (simp add: s)
    from Cons.IH[OF this] show ?thesis using False by (simp add: s sw)
  qed
qed

lemma hunt_leads_preserves:
  assumes pres: "\<And>st results. P st \<Longrightarrow>
             P (accept_leads st
                  (extract_leads_from_results L results (resolve_country L country_arg city) True))"
    and init: "P ([], {}, {})"
  shows "\<exists>st. P st \<and>
           fst (hunt_leads L key net log query city max_results strategy country_arg) =
             slice_to max_results (fst st)"
proof -
  let ?c = "resolve_country L country_arg city"
  let ?s1 = "golden_wave L key net log query city max_results strategy ?c"
  have p1: "P (fst ?s1)"
    using pres[OF init] by (simp add: golden_wave_def Let_def split: prod.splits)
  have step: "P (fst (query_loop L key net ?c max_results s qs))" if "P (fst s)" for s qs
    by (rule query_loop_preserves[where P = P]) (fact pres, fact that)
  let ?pp = "dict_get phone_patterns_map ?c egypt_phone_patterns"
  let ?s2 = "query_loop L key net ?c max_results ?s1
               (phone_heavy_queries (extract_service query) city ?pp)"
  have p2: "P (fst ?s2)" using p1 by (rule step)
  let ?s3 = "if int (length (fst (fst ?s2))) < max_results
             then query_loop L key net ?c max_results ?s2
                    (generate_fallback_queries L query city (Some ?c))
             else ?s2"
  have p3: "P (fst ?s3)" using p2 step[OF p2] by simp
  let ?s4 = "if int (length (fst (fst ?s3))) < max_results
             then query_loop L key net ?c max_results ?s3
                    (generic_queries (extract_service query) city
                       (dict_get country_names ?c ar_egypt) ?pp)
             else ?s3"
  have p4: "P (fst ?s4)" using p3 step[OF p3] by simp
  have "fst (hunt_leads L key net log query city max_results strategy country_arg) =
          slice_to max_results (fst (fst ?s4))"
    by (simp add: hunt_leads_def Let_def)
  with p4 show ?thesis by blast
qed

text \<open>The final slice.\<close>

lemma slice_to_take: "\<exists>k. slice_to n xs = take k xs"
  by (auto simp: slice_to_def)

lemma set_slice_to: "set (slice_to n xs) \<subseteq> set xs"
  by (auto simp: slice_to_def dest: in_set_takeD)

lemma length_slice_to: "0 \<le> n \<Longrightarrow> int (length (slice_to n xs)) \<le> n"
  by (auto simp: slice_to_def)

lemma distinct_map_filter_take:
  assumes "distinct (map f (filter P xs))"
  shows "distinct (map f (filter P (take k xs)))"
proof -
  have "distinct (map f (filter P (take k xs @ drop k xs)))" using assms by simp
  then show ?thesis by (simp only: filter_append map_append distinct_append)
qed

text \<open>Unique contacts.\<close>

lemma unique_contacts_slice: "unique_contacts xs \<Longrightarrow> unique_contacts (slice_to n xs)"
  using slice_to_take[of n xs] by (auto simp: unique_contacts_def intro: distinct_map_filter_take)

lemma accept_step_seen_covers: "seen_covers st \<Longrightarrow> seen_covers (accept_step st ld)"
  by (cases st) (auto simp: seen_covers_def unique_contacts_def accept_step_def)

lemma accept_leads_seen_covers: "seen_covers st \<Longrightarrow> seen_covers (accept_leads st leads)"
  by (rule accept_leads_preserves[where P = seen_covers and Q = "\<lambda>ld. True"])
     (simp_all add: accept_step_seen_covers list_all_iff)

text \<open>Contacts and lead types.\<close>

lemma extracted_lead_types:
  "list_all (\<lambda>ld. lead_type ld = lead_type_of ld)
     (extract_leads_from_results L results ctry flag)"
proof -
  have "lead_type ld = lead_type_of ld"
    if "ld \<in> set (extract_leads_from_results L results ctry flag)" for ld
  proof -
    from that obtain j where j: "j < length (extract_leads_from_results L results ctry flag)"
      "ld = extract_leads_from_results L results ctry flag ! j"
      by (metis in_set_conv_nth)
    with extract_run_inv[of L ctry flag results] obtain i where
      "made_by L ctry flag (results ! i) (take j (extract_leads_from_results L results ctry flag)) ld"
      unfolding run_inv_def by blast
    from made_by_fields[OF this] show ?thesis by blast
  qed
  then show ?thesis by (simp add: list_all_iff)
qed

lemma accept_step_contact:
  assumes "contact_state st" and "lead_type ld = lead_type_of ld"
  shows "contact_state (accept_step st ld)"
  using assms
  by (cases st)
     (auto simp: contact_state_def accept_step_def contact_lead_def has_contact_def
        lead_type_of_def A_def)

lemma accept_leads_contact:
  assumes "contact_state st"
  shows "contact_state (accept_leads st (extract_leads_from_results L results ctry True))"
proof (rule accept_leads_preserves[where P = contact_state
      and Q = "\<lambda>ld. lead_type ld = lead_type_of ld"])
  show "contact_state st" by (fact assms)
  show "list_all (\<lambda>ld. lead_type ld = lead_type_of ld)
          (extract_leads_from_results L results ctry True)"
    by (rule extracted_lead_types)
  show "contact_state (accept_step st' ld)"
    if "contact_state st'" "lead_type ld = lead_type_of ld" for st' ld
    using that by (rule accept_step_contact)
qed

text \<open>The quota check and the log of requests.\<close>

lemma query_loop_quota_met:
  "max_results \<le> int (length (fst (fst s))) \<Longrightarrow> query_loop L key net ctry max_results s qs = s"
  by (cases s; cases qs) auto

lemma search_duckduckgo_log:
  "snd (search_duckduckgo net log q n) = log @ [Get_duckduckgo q]"
  by (simp add: search_duckduckgo_def duckduckgo_try_def Let_def split: py.splits option.splits)

lemma search_with_country_log:
  "\<exists>reqs. snd (search_with_country key net log q ctry n) = log @ reqs \<and>
          list_all (\<lambda>req. query_of req = q) reqs"
proof (cases "truthy key")
  case False
  then have "snd (search_with_country key net log q ctry n) = log @ [Get_duckduckgo q]"
    by (simp add: search_with_country_def Let_def search_duckduckgo_log)
  then show ?thesis by (auto simp: query_of_def)
next
  case True
  let ?req = "Post_serper (get_or key []) q (dict_get country_gl ctry (A ''eg'')) (A ''ar'') n"
  have "snd (search_with_country key net log q ctry n) = log @ [?req] \<or>
        snd (search_with_country key net log q ctry n) = log @ [?req, Get_duckduckgo q]"
    using True
    by (auto simp: search_with_country_def Let_def serper_try_def search_duckduckgo_log
        split: py.splits option.splits prod.splits)
  then show ?thesis by (auto simp: query_of_def)
qed

text \<open>The example run, evaluated.\<close>

lemma resolve_cairo: "resolve_country L None cairo = A ''egypt''"
  by (simp add: resolve_country_def detect_country_def COUNTRY_CONFIGS_def egypt_config_def
      cairo_def Let_def)

lemma example_search:
  "search_with_country (Some (A ''key'')) two_spellings log q (A ''egypt'') 6 =
     ([\<lparr>title = Some (A ''Dr A 01012345678''), link = Some (A ''http://a''),
        snippet = Some [], backend = Some (A ''serper'')\<rparr>,
       \<lparr>title = Some (A ''Dr B +201012345678''), link = Some (A ''http://b''),
        snippet = Some [], backend = Some (A ''serper'')\<rparr>],
      log @ [Post_serper (A ''key'') q (A ''eg'') (A ''ar'') 6])"
  by (simp add: search_with_country_def serper_try_def serper_body_def two_spellings_def
      truthy_def get_or_def dict_get_def country_gl_def slice_to_def Let_def A_def)

lemma example_leads:
  "extract_leads_from_results example_runtime
     [\<lparr>title = Some (A ''Dr A 01012345678''), link = Some (A ''http://a''),
        snippet = Some [], backend = Some (A ''serper'')\<rparr>,
      \<lparr>title = Some (A ''Dr B +201012345678''), link = Some (A ''http://b''),
        snippet = Some [], backend = Some (A ''serper'')\<rparr>] (A ''egypt'') True =
     [local_lead, international_lead]"
  by (simp add: eval_defs local_lead_def international_lead_def)

lemma example_golden_wave:
  "golden_wave example_runtime (Some (A ''key'')) two_spellings [] (A ''dentist'') cairo 2
     (A ''social_media'') (A ''egypt'') =
     (([local_lead, international_lead], {A ''+201012345678'', A ''01012345678''}, {}),
      [Post_serper (A ''key'')
         (golden_query_for example_runtime (A ''dentist'') cairo (A ''social_media'') (A ''egypt''))
         (A ''eg'') (A ''ar'') 6])"
  by (simp add: golden_wave_def Let_def example_search example_leads)
     (simp add: accept_leads_def accept_step_def local_lead_def international_lead_def A_def)

lemma example_hunt:
  "hunt_leads example_runtime (Some (A ''key'')) two_spellings [] (A ''dentist'') cairo 2
     (A ''social_media'') None =
     ([local_lead, international_lead],
      [Post_serper (A ''key'')
         (golden_query_for example_runtime (A ''dentist'') cairo (A ''social_media'') (A ''egypt''))
         (A ''eg'') (A ''ar'') 6])"
  by (simp add: hunt_leads_def Let_def resolve_cairo example_golden_wave query_loop_quota_met
      slice_to_def)

lemma golden_wave_down:
  "golden_wave L None down log query city max_results strategy ctry =
     (([], {}, {}),
      log @ [Get_duckduckgo (golden_query_for L query city strategy ctry)])"
  by (simp add: golden_wave_def Let_def search_with_country_def truthy_def
      search_duckduckgo_def duckduckgo_try_def down_def extract_leads_from_results_def
      accept_leads_def)

text \<open>
  C1, as the code has it. For a quota \<open>max_results\<close> that is not negative, \<open>hunt_leads\<close>
  returns at most \<open>max_results\<close> leads.
\<close>

theorem hunt_leads_quota_bound:
  assumes "0 \<le> max_results"
  shows "int (length (fst (hunt_leads L key net log query city max_results strategy country_arg)))
           \<le> max_results"
  using assms by (simp add: hunt_leads_def Let_def length_slice_to)

theorem hunt_leads_quota_bound_witness:
  "(0::int) \<le> 2 \<and>
   int (length (fst (hunt_leads example_runtime (Some (A ''key'')) two_spellings []
                       (A ''dentist'') cairo 2 (A ''social_media'') None))) \<le> 2 \<and>
   fst (hunt_leads example_runtime (Some (A ''key'')) two_spellings [] (A ''dentist'') cairo 2
          (A ''social_media'') None) = [local_lead, international_lead]"
  using hunt_leads_quota_bound [of 2 example_runtime "Some (A ''key'')" two_spellings "[]"
      "A ''dentist''" cairo "A ''social_media''" None]
  by (simp add: example_hunt)

text \<open>
  C1 as stated fails for a negative quota, which the endpoint of the root \<open>main.py\<close>
  passes on unchecked: with \<open>max_results = -1\<close> and the network down the hunt returns the
  empty list, whose length 0 is not at most -1.
\<close>

theorem hunt_leads_negative_quota:
  "fst (hunt_leads example_runtime None down [] (A ''dentist'') cairo (- 1)
          (A ''social_media'') None) = [] \<and>
   \<not> int (length (fst (hunt_leads example_runtime None down [] (A ''dentist'') cairo (- 1)
                          (A ''social_media'') None))) \<le> - 1"
proof -
  have "fst (hunt_leads example_runtime None down [] (A ''dentist'') cairo (- 1)
               (A ''social_media'') None) = []"
    by (simp add: hunt_leads_def Let_def golden_wave_down query_loop_quota_met slice_to_def)
  then show ?thesis by simp
qed

text \<open>
  C2, as the code has it. In the list that \<open>hunt_leads\<close> returns no two leads with a
  phone carry the same phone string, and no two leads without a phone carry the same
  e-mail string. The strings are compared as the extractor left them (a phone with its
  whitespace and dashes removed, an e-mail as matched): no prefix is stripped and no
  letter is lowered.
\<close>

theorem hunt_leads_unique_contacts:
  "unique_contacts (fst (hunt_leads L key net log query city max_results strategy country_arg))"
proof -
  have "\<exists>st. seen_covers st \<and>
          fst (hunt_leads L key net log query city max_results strategy country_arg) =
            slice_to max_results (fst st)"
  proof (rule hunt_leads_preserves)
    show "seen_covers ([], {}, {})" by (simp add: seen_covers_def unique_contacts_def)
  next
    fix st results
    assume "seen_covers st"
    then show "seen_covers (accept_leads st (extract_leads_from_results L results
                 (resolve_country L country_arg city) True))"
      by (rule accept_leads_seen_covers)
  qed
  then obtain st where "seen_covers st"
    and eq: "fst (hunt_leads L key net log query city max_results strategy country_arg) =
               slice_to max_results (fst st)" by blast
  then have "unique_contacts (fst st)" by (cases st) (simp add: seen_covers_def)
  then show ?thesis unfolding eq by (rule unique_contacts_slice)
qed

theorem hunt_leads_unique_contacts_witness:
  "unique_contacts
     (fst (hunt_leads example_runtime (Some (A ''key'')) two_spellings [] (A ''dentist'') cairo 2
             (A ''social_media'') None)) \<and>
   map phone
     (fst (hunt_leads example_runtime (Some (A ''key'')) two_spellings [] (A ''dentist'') cairo 2
             (A ''social_media'') None)) = [A ''01012345678'', A ''+201012345678'']"
  using hunt_leads_unique_contacts [of example_runtime "Some (A ''key'')" two_spellings "[]"
      "A ''dentist''" cairo 2 "A ''social_media''" None]
  by (simp add: example_hunt local_lead_def international_lead_def)

text \<open>
  C2 as stated fails: the run returns two leads whose phones differ as strings and are
  equal once normalised, since \<open>_normalize_phone\<close> strips the \<open>+2\<close> of the second.
\<close>

theorem hunt_leads_same_normalized_phone:
  "fst (hunt_leads example_runtime (Some (A ''key'')) two_spellings [] (A ''dentist'') cairo 2
          (A ''social_media'') None) = [local_lead, international_lead] \<and>
   phone local_lead = A ''01012345678'' \<and> phone international_lead = A ''+201012345678'' \<and>
   normalize_phone example_runtime (phone local_lead) =
     normalize_phone example_runtime (phone international_lead)"
proof -
  have "normalize_phone example_runtime (phone local_lead) =
          normalize_phone example_runtime (phone international_lead)"
    by (simp add: local_lead_def international_lead_def normalize_phone_def sub_empty_Chr
        separator_def isspace_def A_def)
  then show ?thesis
    by (simp add: example_hunt) (simp add: local_lead_def international_lead_def)
qed

text \<open>
  C4. If the golden wave alone accepts at least \<open>max_results\<close> leads, the log of
  requests at the end of \<open>hunt_leads\<close> is the log at the end of the golden wave: every
  request sent carries the golden query, and no fallback query is issued.
\<close>

theorem golden_quota_stops_the_hunt:
  assumes "max_results \<le> int (length (fst (fst
             (golden_wave L key net log query city max_results strategy
                (resolve_country L country_arg city)))))"
  shows "snd (hunt_leads L key net log query city max_results strategy country_arg) =
           snd (golden_wave L key net log query city max_results strategy
                  (resolve_country L country_arg city)) \<and>
         (\<exists>reqs. snd (hunt_leads L key net log query city max_results strategy country_arg) =
                   log @ reqs \<and>
                 list_all (\<lambda>req. query_of req =
                    golden_query_for L query city strategy (resolve_country L country_arg city))
                   reqs)"
proof -
  let ?c = "resolve_country L country_arg city"
  let ?s1 = "golden_wave L key net log query city max_results strategy ?c"
  have stop: "query_loop L key net ?c max_results ?s1 qs = ?s1" for qs
    using assms by (rule query_loop_quota_met)
  have h: "snd (hunt_leads L key net log query city max_results strategy country_arg) = snd ?s1"
    using assms by (simp add: hunt_leads_def Let_def stop)
  have "\<exists>reqs. snd ?s1 = log @ reqs \<and>
          list_all (\<lambda>req. query_of req = golden_query_for L query city strategy ?c) reqs"
    using search_with_country_log[of key net log "golden_query_for L query city strategy ?c" ?c
        "max_results * 3"]
    by (auto simp: golden_wave_def Let_def split: prod.splits)
  with h show ?thesis by simp
qed

theorem golden_quota_witness:
  "2 \<le> int (length (fst (fst
          (golden_wave example_runtime (Some (A ''key'')) two_spellings [] (A ''dentist'') cairo 2
             (A ''social_media'') (resolve_country example_runtime None cairo))))) \<and>
   snd (hunt_leads example_runtime (Some (A ''key'')) two_spellings [] (A ''dentist'') cairo 2
          (A ''social_media'') None) =
     [Post_serper (A ''key'')
        (golden_query_for example_runtime (A ''dentist'') cairo (A ''social_media'') (A ''egypt''))
        (A ''eg'') (A ''ar'') 6]"
  using golden_quota_stops_the_hunt [of 2 example_runtime "Some (A ''key'')" two_spellings "[]"
      "A ''dentist''" cairo "A ''social_media''" None]
  by (simp add: resolve_cairo example_golden_wave)

text \<open>
  C10. Every lead that \<open>hunt_leads\<close> returns has a phone or an e-mail, and none has the
  lead type \<open>potential\<close>.
\<close>

theorem hunt_leads_only_contact_leads:
  "list_all (\<lambda>ld. (phone ld \<noteq> [] \<or> email ld \<noteq> []) \<and> lead_type ld \<noteq> A ''potential'')
     (fst (hunt_leads L key net log query city max_results strategy country_arg))"
proof -
  have "\<exists>st. contact_state st \<and>
          fst (hunt_leads L key net log query city max_results strategy country_arg) =
            slice_to max_results (fst st)"
  proof (rule hunt_leads_preserves)
    show "contact_state ([], {}, {})" by (simp add: contact_state_def)
  next
    fix st results
    assume "contact_state st"
    then show "contact_state (accept_leads st (extract_leads_from_results L results
                 (resolve_country L country_arg city) True))"
      by (rule accept_leads_contact)
  qed
  then obtain st where c: "list_all contact_lead (fst st)"
    and eq: "fst (hunt_leads L key net log query city max_results strategy country_arg) =
               slice_to max_results (fst st)" by (auto simp: contact_state_def)
  have "list_all contact_lead (slice_to max_results (fst st))"
    using c set_slice_to[of max_results "fst st"] by (auto simp: list_all_iff)
  then show ?thesis unfolding eq by (simp add: list_all_iff contact_lead_def has_contact_def)
qed

theorem hunt_leads_only_contact_leads_witness:
  "list_all (\<lambda>ld. (phone ld \<noteq> [] \<or> email ld \<noteq> []) \<and> lead_type ld \<noteq> A ''potential'')
     (fst (hunt_leads example_runtime (Some (A ''key'')) two_spellings [] (A ''dentist'') cairo 2
             (A ''social_media'') None)) \<and>
   map lead_type
     (fst (hunt_leads example_runtime (Some (A ''key'')) two_spellings [] (A ''dentist'') cairo 2
             (A ''social_media'') None)) = [A ''with_phone'', A ''with_phone'']"
  using hunt_leads_only_contact_leads [of example_runtime "Some (A ''key'')" two_spellings "[]"
      "A ''dentist''" cairo 2 "A ''social_media''" None]
  by (simp add: example_hunt local_lead_def international_lead_def)

section \<open>Scenarios of the specification, and the budget of requests\<close>

text \<open>
  The text with the Egyptian number gives one lead, with that phone and the type
  \<open>with_phone\<close>; of two candidates, the one whose phone is among the existing phones
  is filtered out; Riyadh resolves to \<open>"saudi"\<close>, whatever \<open>str.lower\<close> does.
\<close>

lemma scenario_extraction:
  "map (\<lambda>ld. (phone ld, lead_type ld))
     (extract_leads_from_results example_runtime
        [\<lparr>title = Some contact_blob, link = Some (A ''http://a''), snippet = None,
          backend = None\<rparr>] (A ''egypt'') True) =
   [(A ''01012345678'', A ''with_phone'')]"
  by (simp add: eval_defs contact_blob_def)

lemma scenario_filter:
  "filter_duplicates L (postgres_db [A ''01012345678''] []) user_id
     [candidate (A ''01012345678''), candidate (A ''01099999999'')] =
   Returns [candidate (A ''01099999999'')]"
  by (simp add: filter_duplicates_def filter_loop_def filter_step_def normalize_phone_def
      get_existing_phones_def get_existing_emails_def postgres_db_def replit_pg_def
      sub_empty_Chr separator_def isspace_def candidate_def A_def Let_def)

lemma scenario_riyadh: "detect_country L riyadh = A ''saudi''"
  by (simp add: detect_country_def COUNTRY_CONFIGS_def egypt_config_def saudi_config_def
      riyadh_def Let_def)

text \<open>
  A search sends at most two requests (Serper, then DuckDuckGo), and a hunt makes at
  most 17 searches (the golden query, 6 phone-heavy, 5 fallback and 5 generic queries):
  it never sends more than 34 requests.
\<close>

lemma search_with_country_requests:
  "length (snd (search_with_country key net log q ctry n)) \<le> length log + 2"
  by (auto simp: search_with_country_def Let_def serper_try_def search_duckduckgo_log
      split: py.splits option.splits prod.splits)

lemma query_loop_requests:
  "length (snd (query_loop L key net ctry max_results s qs)) \<le> length (snd s) + 2 * length qs"
proof (induction qs arbitrary: s)
  case Nil
  then show ?case by (cases s) simp
next
  case (Cons q qs)
  obtain st log where s: "s = (st, log)" by (cases s)
  show ?case
  proof (cases "max_results \<le> int (length (fst st))")
    case True
    then show ?thesis by (simp add: s)
  next
    case False
    obtain results log' where sw:
      "search_with_country key net log q ctry max_results = (results, log')"
      by (cases "search_with_country key net log q ctry max_results")
    have "length log' \<le> length log + 2"
      using search_with_country_requests[of key net log q ctry max_results] sw by simp
    moreover have "length (snd (query_loop L key net ctry max_results
        (accept_leads st (extract_leads_from_results L results ctry True), log') qs))
        \<le> length log' + 2 * length qs"
      using Cons.IH[of "(accept_leads st (extract_leads_from_results L results ctry True), log')"]
      by simp
    ultimately show ?thesis using False by (simp add: s sw)
  qed
qed

theorem hunt_leads_request_budget:
  "length (snd (hunt_leads L key net log query city max_results strategy country_arg))
     \<le> length log + 34"
proof -
  let ?c = "resolve_country L country_arg city"
  let ?s1 = "golden_wave L key net log query city max_results strategy ?c"
  have l1: "length (snd ?s1) \<le> length log + 2"
    using search_with_country_requests[of key net log
        "golden_query_for L query city strategy ?c" ?c "max_results * 3"]
    by (auto simp: golden_wave_def Let_def split: prod.splits)
  let ?pp = "dict_get phone_patterns_map ?c egypt_phone_patterns"
  let ?s2 = "query_loop L key net ?c max_results ?s1
               (phone_heavy_queries (extract_service query) city ?pp)"
  have l2: "length (snd ?s2) \<le> length log + 14"
    using query_loop_requests[of L key net ?c max_results ?s1
        "phone_heavy_queries (extract_service query) city ?pp"] l1
    by (simp add: phone_heavy_queries_def)
  let ?s3 = "if int (length (fst (fst ?s2))) < max_results
             then query_loop L key net ?c max_results ?s2
                    (generate_fallback_queries L query city (Some ?c))
             else ?s2"
  have l3: "length (snd ?s3) \<le> length log + 24"
    using query_loop_requests[of L key net ?c max_results ?s2
        "generate_fallback_queries L query city (Some ?c)"] l2
    by (simp add: generate_fallback_queries_def Let_def)
  let ?s4 = "if int (length (fst (fst ?s3))) < max_results
             then query_loop L key net ?c max_results ?s3
                    (generic_queries (extract_service query) city
                       (dict_get country_names ?c ar_egypt) ?pp)
             else ?s3"
  have l4: "length (snd ?s4) \<le> length log + 34"
    using query_loop_requests[of L key net ?c max_results ?s3
        "generic_queries (extract_service query) city (dict_get country_names ?c ar_egypt) ?pp"]
      l3
    by (simp add: generic_queries_def)
  have "snd (hunt_leads L key net log query city max_results strategy country_arg) = snd ?s4"
    by (simp add: hunt_leads_def Let_def)
  with l4 show ?thesis by simp
qed

end
